theory Spec2Isabelle
  imports Complex_Main "HOL-Library.AList"
begin

section \<open>Python values and failures\<close>

text \<open>
  The program is Python 2 (ConfigParser, iteritems, basestring, long). Every exception
  that the modelled code can raise is a value of \<open>py_error\<close>; a function that can
  raise returns \<open>py_error + 'a\<close>, with \<open>Inl\<close> for the raised exception.
  \<open>UnrecognizedOption k\<close> is \<open>Exception("Unrecognized option", k)\<close> of merge_config,
  \<open>UnexpectedSection s\<close> is the exception of generate_parameters_file, and
  \<open>NotImplementedShape\<close> is
  \<open>Exception("TODO implement custom generation for other input shapes")\<close>.
  A 64-bit float is a value of the type parameter \<open>'f\<close>, and the floating-point
  operations are parameters (\<open>float_ops\<close> below): nothing is assumed about rounding.
\<close>

datatype py_error =
    NameError | TypeError | ValueError | KeyError | IndexError | AssertionError
  | AttributeError | IOError | NoSectionError | NoOptionError | DuplicateSectionError
  | UnrecognizedOption string | UnexpectedSection string | NotImplementedShape

section \<open>Arrays\<close>

text \<open>
  A numpy array is its shape together with its elements in C order (last axis fastest).
\<close>

record 'a ndarray =
  shape :: "nat list"
  flat :: "'a list"

text \<open>
  \<open>c_index shape idx\<close> is the position of the element with multi-index \<open>idx\<close> in the C-order
  element list, and \<open>unravel shape n\<close> is the multi-index of position \<open>n\<close>.
\<close>

fun c_index :: "nat list \<Rightarrow> nat list \<Rightarrow> nat" where
  "c_index (d # ds) (i # js) = i * prod_list ds + c_index ds js"
| "c_index _ _ = 0"

fun unravel :: "nat list \<Rightarrow> nat \<Rightarrow> nat list" where
  "unravel [] n = []"
| "unravel (d # ds) n = (n div prod_list ds) # unravel ds (n mod prod_list ds)"

definition np_get :: "'a ndarray \<Rightarrow> nat list \<Rightarrow> 'a" where
  "np_get a idx = flat a ! c_index (shape a) idx"

text \<open>
  \<open>a.reshape(dims)\<close> on a flat record. numpy raises ValueError for a dimension below
  \<open>-1\<close>, for more than one \<open>-1\<close>, and when the element count does not fit; a single
  \<open>-1\<close> stands for the dimension that makes the count fit.
\<close>

definition np_reshape :: "'a list \<Rightarrow> int list \<Rightarrow> py_error + 'a ndarray" where
  "np_reshape xs dims =
     (let unknown = filter (\<lambda>d. d = - 1) dims;
          known = prod_list (filter (\<lambda>d. d \<noteq> - 1) dims);
          size = int (length xs)
      in if list_ex (\<lambda>d. d < - 1) dims \<or> 1 < length unknown then Inl ValueError
         else if unknown = []
         then (if prod_list dims = size
               then Inr \<lparr>shape = map nat dims, flat = xs\<rparr>
               else Inl ValueError)
         else (if known = 0 then Inl ValueError
               else if size mod known = 0
               then Inr \<lparr>shape = map (\<lambda>d. nat (if d = - 1 then size div known else d)) dims,
                         flat = xs\<rparr>
               else Inl ValueError))"

text \<open>
  \<open>a.transpose()\<close> with no argument reverses the order of the axes: the element at
  multi-index \<open>idx\<close> of the result is the element at \<open>rev idx\<close> of \<open>a\<close>.
\<close>

definition np_transpose :: "'a ndarray \<Rightarrow> 'a ndarray" where
  "np_transpose a =
     \<lparr>shape = rev (shape a),
      flat = map (\<lambda>n. flat a ! c_index (shape a) (rev (unravel (rev (shape a)) n)))
               [0..<length (flat a)]\<rparr>"

section \<open>Floating-point arithmetic\<close>

text \<open>
  The float64 operations the program uses, as parameters: \<open>fl_of_int n\<close> is the float
  that Python and numpy convert the integer \<open>n\<close> to, \<open>fl_to_int x\<close> is \<open>int(x)\<close> (which
  raises for an infinity or a NaN), \<open>fl_eq\<close> is \<open>==\<close> on floats, and \<open>fl_add\<close>, \<open>fl_sub\<close>,
  \<open>fl_mul\<close>, \<open>fl_div\<close> are the rounded \<open>+\<close>, \<open>-\<close>, \<open>*\<close>, \<open>/\<close>. The conversion of an integer is
  total here; Python raises OverflowError for an integer beyond the float64 range,
  which no grid size or option value that fits in memory reaches.
\<close>

record 'f float_ops =
  fl_of_int :: "int \<Rightarrow> 'f"
  fl_to_int :: "'f \<Rightarrow> py_error + int"
  fl_eq :: "'f \<Rightarrow> 'f \<Rightarrow> bool"
  fl_add :: "'f \<Rightarrow> 'f \<Rightarrow> 'f"
  fl_sub :: "'f \<Rightarrow> 'f \<Rightarrow> 'f"
  fl_mul :: "'f \<Rightarrow> 'f \<Rightarrow> 'f"
  fl_div :: "'f \<Rightarrow> 'f \<Rightarrow> 'f"

text \<open>
  Exact arithmetic on the reals is one instance. It agrees with float64 wherever every
  float64 operation involved is exact, as for the small integers and powers of ten
  of the examples below.
\<close>

definition exact_ops :: "real float_ops" where
  "exact_ops =
     \<lparr>fl_of_int = real_of_int,
      fl_to_int = (\<lambda>x. Inr (if 0 \<le> x then \<lfloor>x\<rfloor> else \<lceil>x\<rceil>)),
      fl_eq = (=),
      fl_add = (+), fl_sub = (-), fl_mul = (*), fl_div = (/)\<rparr>"

section \<open>Grid geometry (core.py, class Grid)\<close>

text \<open>
  \<open>np.linspace(start, stop, num)\<close> with the default \<open>endpoint=True\<close>, for float \<open>start\<close>
  and \<open>stop\<close> (numpy first multiplies both by \<open>1.\<close>, which leaves a float as it is). A
  negative \<open>num\<close> raises ValueError. Otherwise numpy takes \<open>y = arange(0, num)\<close> as floats,
  \<open>delta = stop - start\<close> and \<open>div = num - 1\<close>; for \<open>div > 0\<close> it computes
  \<open>step = delta / div\<close> and \<open>y * step\<close>, or \<open>(y / div) * delta\<close> when \<open>step == 0\<close>; for
  \<open>div <= 0\<close> it computes \<open>y * delta\<close>; then it adds \<open>start\<close>, and overwrites the last
  sample with \<open>stop\<close> when \<open>num > 1\<close>. \<open>linspace_sample\<close> is sample \<open>i\<close> before that
  overwrite.
\<close>

definition linspace_sample :: "'f float_ops \<Rightarrow> 'f \<Rightarrow> 'f \<Rightarrow> int \<Rightarrow> nat \<Rightarrow> 'f" where
  "linspace_sample ops start stop num i =
     (let y = fl_of_int ops (int i);
          delta = fl_sub ops stop start;
          dv = num - 1
      in if 0 < dv
         then (let step = fl_div ops delta (fl_of_int ops dv)
               in if fl_eq ops step (fl_of_int ops 0)
                  then fl_add ops (fl_mul ops (fl_div ops y (fl_of_int ops dv)) delta) start
                  else fl_add ops (fl_mul ops y step) start)
         else fl_add ops (fl_mul ops y delta) start)"

definition np_linspace :: "'f float_ops \<Rightarrow> 'f \<Rightarrow> 'f \<Rightarrow> int \<Rightarrow> py_error + 'f list" where
  "np_linspace ops start stop num =
     (if num < 0 then Inl ValueError
      else
        let n = nat num;
            ys = map (linspace_sample ops start stop num) [0..<n]
        in Inr (if 1 < num then ys[n - 1 := stop] else ys))"

text \<open>\<open>(a[1:] + a[:-1]) / 2.\<close> on a one-dimensional array.\<close>

definition midpoints :: "'f float_ops \<Rightarrow> 'f list \<Rightarrow> 'f list" where
  "midpoints ops a =
     map (\<lambda>(u, v). fl_div ops (fl_add ops u v) (fl_of_int ops 2)) (zip (tl a) (butlast a))"

record 'f grid =
  grid_xp1 :: "'f list"
  grid_yp1 :: "'f list"
  grid_x :: "'f list"
  grid_y :: "'f list"
  grid_nx :: int
  grid_ny :: int
  grid_layers :: int

text \<open>
  \<open>Grid(nx, ny, layers, dx, dy, x0, y0)\<close>: \<open>nx\<close>, \<open>ny\<close> and \<open>layers\<close> are Python integers, the
  spacings and the origin are floats, and \<open>nx*dx+x0\<close> is evaluated in floating point.
\<close>

definition Grid ::
    "'f float_ops \<Rightarrow> int \<Rightarrow> int \<Rightarrow> int \<Rightarrow> 'f \<Rightarrow> 'f \<Rightarrow> 'f \<Rightarrow> 'f \<Rightarrow> py_error + 'f grid" where
  "Grid ops nx ny layers dx dy x0 y0 =
     (case np_linspace ops x0 (fl_add ops (fl_mul ops (fl_of_int ops nx) dx) x0) (nx + 1) of
        Inl e \<Rightarrow> Inl e
      | Inr xp1 \<Rightarrow>
          (case np_linspace ops y0 (fl_add ops (fl_mul ops (fl_of_int ops ny) dy) y0) (ny + 1) of
             Inl e \<Rightarrow> Inl e
           | Inr yp1 \<Rightarrow>
               Inr \<lparr>grid_xp1 = xp1, grid_yp1 = yp1,
                    grid_x = midpoints ops xp1, grid_y = midpoints ops yp1,
                    grid_nx = nx, grid_ny = ny, grid_layers = layers\<rparr>))"

section \<open>Raw binary array codec (core.py, interpret_raw_file)\<close>

text \<open>\<open>str.startswith\<close> and \<open>os.path.basename\<close> (the part after the last slash).\<close>

fun startswith :: "string \<Rightarrow> string \<Rightarrow> bool" where
  "startswith s [] = True"
| "startswith [] (c # cs) = False"
| "startswith (d # ds) (c # cs) = (d = c \<and> startswith ds cs)"

definition basename :: "string \<Rightarrow> string" where
  "basename name = rev (takeWhile (\<lambda>c. c \<noteq> CHR ''/'') (rev name))"

text \<open>
  The file system is a parameter: \<open>fs name\<close> is the content of the first sequential
  record of the file \<open>name\<close>, or \<open>None\<close> when the file cannot be opened or read.
  \<open>read_reals\<close> stands for \<open>with fortran_file(name, 'r') as f: f.read_reals(dtype=np.float64)\<close>.
\<close>

definition read_reals :: "(string \<Rightarrow> 'a list option) \<Rightarrow> string \<Rightarrow> py_error + 'a list" where
  "read_reals fs name = (case fs name of None \<Rightarrow> Inl IOError | Some xs \<Rightarrow> Inr xs)"

text \<open>
  Lines 67 to 89 of core.py: \<open>dx = 0; dy = 0; layered = True\<close>, then ten independent
  \<open>if file_part.startswith(...)\<close> statements in sequence, each overwriting what it names.
  The state is the triple \<open>(dx, dy, layered)\<close>.
\<close>

definition raw_file_convention :: "string \<Rightarrow> int \<times> int \<times> bool" where
  "raw_file_convention file_part =
     (let st = (0, 0, True);
          st = (if startswith file_part ''snap.h'' then st else st);
          st = (if startswith file_part ''snap.u'' then (1, snd st) else st);
          st = (if startswith file_part ''snap.v'' then (fst st, 1, snd (snd st)) else st);
          st = (if startswith file_part ''snap.eta'' then (fst st, fst (snd st), False) else st);
          st = (if startswith file_part ''wind_x'' then (1, fst (snd st), False) else st);
          st = (if startswith file_part ''wind_y'' then (fst st, 1, False) else st);
          st = (if startswith file_part ''av.h'' then st else st);
          st = (if startswith file_part ''av.u'' then (1, snd st) else st);
          st = (if startswith file_part ''av.v'' then (fst st, 1, snd (snd st)) else st);
          st = (if startswith file_part ''av.eta'' then (fst st, fst (snd st), False) else st)
      in st)"

definition interpret_raw_file ::
    "(string \<Rightarrow> 'a list option) \<Rightarrow> string \<Rightarrow> int \<Rightarrow> int \<Rightarrow> int \<Rightarrow> py_error + 'a ndarray" where
  "interpret_raw_file fs name nx ny layers =
     (case raw_file_convention (basename name) of
        (dx, dy, layered) \<Rightarrow>
          (case read_reals fs name of
             Inl e \<Rightarrow> Inl e
           | Inr xs \<Rightarrow>
               if layered
               then (case np_reshape xs [layers, ny + dy, nx + dx] of
                       Inl e \<Rightarrow> Inl e
                     | Inr a \<Rightarrow> Inr (np_transpose a))
               else (case np_reshape xs [ny + dy, nx + dx] of
                       Inl e \<Rightarrow> Inl e
                     | Inr a \<Rightarrow> Inr (np_transpose a))))"

text \<open>
  The convention as the specification words it: a table from file-name prefix to axis
  offsets and layering, and the plain layered tracer shape for every other name.
\<close>

definition spec_prefix_table :: "(string \<times> int \<times> int \<times> bool) list" where
  "spec_prefix_table =
     [(''snap.h'', 0, 0, True), (''av.h'', 0, 0, True),
      (''snap.u'', 1, 0, True), (''av.u'', 1, 0, True),
      (''snap.v'', 0, 1, True), (''av.v'', 0, 1, True),
      (''snap.eta'', 0, 0, False), (''av.eta'', 0, 0, False),
      (''wind_x'', 1, 0, False), (''wind_y'', 0, 1, False)]"

definition spec_convention :: "string \<Rightarrow> int \<times> int \<times> bool" where
  "spec_convention file_part =
     (case find (\<lambda>row. startswith file_part (fst row)) spec_prefix_table of
        Some row \<Rightarrow> snd row
      | None \<Rightarrow> (0, 0, True))"

definition spec_raw_shape :: "string \<Rightarrow> int \<Rightarrow> int \<Rightarrow> int \<Rightarrow> nat list" where
  "spec_raw_shape file_part nx ny layers =
     (case spec_convention file_part of
        (dx, dy, layered) \<Rightarrow>
          if layered then [nat (nx + dx), nat (ny + dy), nat layers]
          else [nat (nx + dx), nat (ny + dy)])"

section \<open>Values passed to the driver\<close>

text \<open>
  The Python objects that reach the configuration and the data-specification
  interpreter: booleans, integers, floats, text, lists, and functions of the two meshed
  coordinate arrays. A function returns an array (a scalar is the array of shape \<open>[]\<close>)
  or raises.
\<close>

datatype 'f pyval =
    PBool bool
  | PInt int
  | PFloat 'f
  | PStr string
  | PList "'f pyval list"
  | PFn "'f ndarray \<Rightarrow> 'f ndarray \<Rightarrow> py_error + 'f ndarray"

text \<open>
  \<open>v == True\<close> and \<open>v == False\<close>: Python compares numbers by value, and \<open>bool\<close> is a
  subclass of \<open>int\<close>, so \<open>1 == True\<close> and \<open>0.0 == False\<close> hold (a float is compared with
  the float of \<open>1\<close> or \<open>0\<close>); text, lists and functions are equal to neither.
\<close>

fun py_eq_bool :: "'f float_ops \<Rightarrow> 'f pyval \<Rightarrow> bool \<Rightarrow> bool" where
  "py_eq_bool ops (PBool c) b = (c = b)"
| "py_eq_bool ops (PInt n) b = (n = (if b then 1 else 0))"
| "py_eq_bool ops (PFloat x) b = fl_eq ops x (fl_of_int ops (if b then 1 else 0))"
| "py_eq_bool ops (PStr s) b = False"
| "py_eq_bool ops (PList vs) b = False"
| "py_eq_bool ops (PFn f) b = False"

text \<open>\<open>isinstance(v, (int, long, float))\<close>; a \<open>bool\<close> is an \<open>int\<close>.\<close>

fun is_number :: "'f pyval \<Rightarrow> bool" where
  "is_number (PBool c) = True"
| "is_number (PInt n) = True"
| "is_number (PFloat x) = True"
| "is_number (PStr s) = False"
| "is_number (PList vs) = False"
| "is_number (PFn f) = False"

text \<open>The value a number takes when it is stored into a float64 array.\<close>

fun number_value :: "'f float_ops \<Rightarrow> 'f pyval \<Rightarrow> 'f" where
  "number_value ops (PBool c) = fl_of_int ops (if c then 1 else 0)"
| "number_value ops (PInt n) = fl_of_int ops n"
| "number_value ops (PFloat x) = x"
| "number_value ops _ = fl_of_int ops 0"

text \<open>
  \<open>int(v)\<close> and \<open>float(v)\<close>. The conversion of text is a parameter (\<open>None\<close> where Python
  raises ValueError); a list or a function raises TypeError.
\<close>

fun py_int :: "'f float_ops \<Rightarrow> (string \<Rightarrow> int option) \<Rightarrow> 'f pyval \<Rightarrow> py_error + int" where
  "py_int ops str_int (PBool c) = Inr (if c then 1 else 0)"
| "py_int ops str_int (PInt n) = Inr n"
| "py_int ops str_int (PFloat x) = fl_to_int ops x"
| "py_int ops str_int (PStr s) = (case str_int s of None \<Rightarrow> Inl ValueError | Some n \<Rightarrow> Inr n)"
| "py_int ops str_int (PList vs) = Inl TypeError"
| "py_int ops str_int (PFn f) = Inl TypeError"

fun py_float :: "'f float_ops \<Rightarrow> (string \<Rightarrow> 'f option) \<Rightarrow> 'f pyval \<Rightarrow> py_error + 'f" where
  "py_float ops str_float (PBool c) = Inr (fl_of_int ops (if c then 1 else 0))"
| "py_float ops str_float (PInt n) = Inr (fl_of_int ops n)"
| "py_float ops str_float (PFloat x) = Inr x"
| "py_float ops str_float (PStr s) = (case str_float s of None \<Rightarrow> Inl ValueError | Some x \<Rightarrow> Inr x)"
| "py_float ops str_float (PList vs) = Inl TypeError"
| "py_float ops str_float (PFn f) = Inl TypeError"

text \<open>\<open>str.lower\<close>, \<open>str.upper\<close> and \<open>str.endswith\<close> on ASCII text.\<close>

definition lower_char :: "char \<Rightarrow> char" where
  "lower_char c =
     (case map_of (zip ''ABCDEFGHIJKLMNOPQRSTUVWXYZ'' ''abcdefghijklmnopqrstuvwxyz'') c of
        None \<Rightarrow> c | Some l \<Rightarrow> l)"

definition upper_char :: "char \<Rightarrow> char" where
  "upper_char c =
     (case map_of (zip ''abcdefghijklmnopqrstuvwxyz'' ''ABCDEFGHIJKLMNOPQRSTUVWXYZ'') c of
        None \<Rightarrow> c | Some u \<Rightarrow> u)"

definition str_lower :: "string \<Rightarrow> string" where
  "str_lower s = map lower_char s"

definition str_upper :: "string \<Rightarrow> string" where
  "str_upper s = map upper_char s"

definition endswith :: "string \<Rightarrow> string \<Rightarrow> bool" where
  "endswith s suffix = startswith (rev s) (rev suffix)"

section \<open>The configuration store (ConfigParser.RawConfigParser)\<close>

text \<open>
  A RawConfigParser holds the DEFAULT options, the sections in insertion order, each
  with its options in insertion order, and \<open>optionxform\<close>, which every option name passes
  through: the library's default lowercases, and default_configuration replaces it by
  \<open>str\<close>. Values are stored as the objects they are.
\<close>

datatype optionxform = Lowercase | Verbatim

record 'f config =
  cfg_defaults :: "(string \<times> 'f pyval) list"
  cfg_sections :: "(string \<times> (string \<times> 'f pyval) list) list"
  cfg_optionxform :: optionxform

definition xform :: "'f config \<Rightarrow> string \<Rightarrow> string" where
  "xform config option = (case cfg_optionxform config of
                            Lowercase \<Rightarrow> str_lower option
                          | Verbatim \<Rightarrow> option)"

definition RawConfigParser :: "'f config" where
  "RawConfigParser = \<lparr>cfg_defaults = [], cfg_sections = [], cfg_optionxform = Lowercase\<rparr>"

definition config_sections :: "'f config \<Rightarrow> string list" where
  "config_sections config = map fst (cfg_sections config)"

definition has_section :: "'f config \<Rightarrow> string \<Rightarrow> bool" where
  "has_section config section = (map_of (cfg_sections config) section \<noteq> None)"

definition add_section :: "'f config \<Rightarrow> string \<Rightarrow> py_error + 'f config" where
  "add_section config section =
     (if str_lower section = ''default'' then Inl ValueError
      else if has_section config section then Inl DuplicateSectionError
      else Inr (config\<lparr>cfg_sections := cfg_sections config @ [(section, [])]\<rparr>))"

definition has_option :: "'f config \<Rightarrow> string \<Rightarrow> string \<Rightarrow> bool" where
  "has_option config section option =
     (if section = [] \<or> section = ''DEFAULT''
      then map_of (cfg_defaults config) (xform config option) \<noteq> None
      else case map_of (cfg_sections config) section of
             None \<Rightarrow> False
           | Some opts \<Rightarrow> map_of opts (xform config option) \<noteq> None
                          \<or> map_of (cfg_defaults config) (xform config option) \<noteq> None)"

definition config_get :: "'f config \<Rightarrow> string \<Rightarrow> string \<Rightarrow> py_error + 'f pyval" where
  "config_get config section option =
     (let opt = xform config option in
      case map_of (cfg_sections config) section of
        None \<Rightarrow>
          if section \<noteq> ''DEFAULT'' then Inl NoSectionError
          else (case map_of (cfg_defaults config) opt of
                  Some v \<Rightarrow> Inr v
                | None \<Rightarrow> Inl NoOptionError)
      | Some opts \<Rightarrow>
          (case map_of opts opt of
             Some v \<Rightarrow> Inr v
           | None \<Rightarrow>
               (case map_of (cfg_defaults config) opt of
                  Some v \<Rightarrow> Inr v
                | None \<Rightarrow> Inl NoOptionError)))"

definition config_set :: "'f config \<Rightarrow> string \<Rightarrow> string \<Rightarrow> 'f pyval \<Rightarrow> py_error + 'f config" where
  "config_set config section option v =
     (if section = [] \<or> section = ''DEFAULT''
      then Inr (config\<lparr>cfg_defaults := AList.update (xform config option) v (cfg_defaults config)\<rparr>)
      else case map_of (cfg_sections config) section of
             None \<Rightarrow> Inl NoSectionError
           | Some opts \<Rightarrow>
               Inr (config\<lparr>cfg_sections :=
                      AList.update section (AList.update (xform config option) v opts)
                        (cfg_sections config)\<rparr>))"

definition boolean_states :: "(string \<times> bool) list" where
  "boolean_states =
     [(''1'', True), (''yes'', True), (''true'', True), (''on'', True),
      (''0'', False), (''no'', False), (''false'', False), (''off'', False)]"

definition getboolean :: "'f config \<Rightarrow> string \<Rightarrow> string \<Rightarrow> py_error + bool" where
  "getboolean config section option =
     (case config_get config section option of
        Inl e \<Rightarrow> Inl e
      | Inr (PStr s) \<Rightarrow>
          (case map_of boolean_states (str_lower s) of
             None \<Rightarrow> Inl ValueError
           | Some b \<Rightarrow> Inr b)
      | Inr _ \<Rightarrow> Inl AttributeError)"

definition getint ::
    "'f float_ops \<Rightarrow> (string \<Rightarrow> int option) \<Rightarrow> 'f config \<Rightarrow> string \<Rightarrow> string \<Rightarrow> py_error + int" where
  "getint ops str_int config section option =
     (case config_get config section option of
        Inl e \<Rightarrow> Inl e
      | Inr v \<Rightarrow> py_int ops str_int v)"

definition getfloat ::
    "'f float_ops \<Rightarrow> (string \<Rightarrow> 'f option) \<Rightarrow> 'f config \<Rightarrow> string \<Rightarrow> string \<Rightarrow> py_error + 'f" where
  "getfloat ops str_float config section option =
     (case config_get config section option of
        Inl e \<Rightarrow> Inl e
      | Inr v \<Rightarrow> py_float ops str_float v)"

section \<open>Configuration model (driver.py)\<close>

definition sections :: "string list" where
  "sections = [''executable'', ''numerics'', ''model'', ''pressure_solver'', ''sponge'',
               ''physics'', ''grid'', ''initial_conditions'', ''external_forcing'']"

text \<open>The fixed key to section table, in the order of its declaration.\<close>

definition section_map :: "(string \<times> string) list" where
  "section_map =
     [(''au'', ''numerics''),
      (''ar'', ''numerics''),
      (''kh'', ''numerics''),
      (''kv'', ''numerics''),
      (''botDrag'', ''numerics''),
      (''dt'', ''numerics''),
      (''slip'', ''numerics''),
      (''niter0'', ''numerics''),
      (''nTimeSteps'', ''numerics''),
      (''dumpFreq'', ''numerics''),
      (''avFreq'', ''numerics''),
      (''checkpointFreq'', ''numerics''),
      (''diagFreq'', ''numerics''),
      (''hmin'', ''numerics''),
      (''maxits'', ''numerics''),
      (''eps'', ''numerics''),
      (''freesurfFac'', ''numerics''),
      (''thickness_error'', ''numerics''),
      (''debug_level'', ''numerics''),
      (''hAdvecScheme'', ''numerics''),
      (''hmean'', ''model''),
      (''depthFile'', ''model''),
      (''H0'', ''model''),
      (''RedGrav'', ''model''),
      (''nProcX'', ''pressure_solver''),
      (''nProcY'', ''pressure_solver''),
      (''spongeHTimeScaleFile'', ''sponge''),
      (''spongeUTimeScaleFile'', ''sponge''),
      (''spongeVTimeScaleFile'', ''sponge''),
      (''spongeHFile'', ''sponge''),
      (''spongeUFile'', ''sponge''),
      (''spongeVFile'', ''sponge''),
      (''g_vec'', ''physics''),
      (''rho0'', ''physics''),
      (''nx'', ''grid''),
      (''ny'', ''grid''),
      (''layers'', ''grid''),
      (''dx'', ''grid''),
      (''dy'', ''grid''),
      (''fUfile'', ''grid''),
      (''fVfile'', ''grid''),
      (''wetMaskFile'', ''grid''),
      (''initUfile'', ''initial_conditions''),
      (''initVfile'', ''initial_conditions''),
      (''initHfile'', ''initial_conditions''),
      (''initEtaFile'', ''initial_conditions''),
      (''zonalWindFile'', ''external_forcing''),
      (''meridionalWindFile'', ''external_forcing''),
      (''DumpWind'', ''external_forcing''),
      (''wind_mag_time_series_file'', ''external_forcing''),
      (''RelativeWind'', ''external_forcing''),
      (''Cd'', ''external_forcing''),
      (''exe'', ''executable''),
      (''valgrind'', ''executable''),
      (''perf'', ''executable'')]"

text \<open>
  default_configuration: a fresh parser, the nine sections, the two executable flags
  (set while \<open>optionxform\<close> still lowercases), and then \<open>config.optionxform = str\<close>.
\<close>

fun add_sections :: "'f config \<Rightarrow> string list \<Rightarrow> py_error + 'f config" where
  "add_sections config [] = Inr config"
| "add_sections config (section # rest) =
     (case add_section config section of
        Inl e \<Rightarrow> Inl e
      | Inr config1 \<Rightarrow> add_sections config1 rest)"

definition default_configuration :: "py_error + 'f config" where
  "default_configuration =
     (case add_sections RawConfigParser sections of
        Inl e \<Rightarrow> Inl e
      | Inr config1 \<Rightarrow>
          (case config_set config1 ''executable'' ''valgrind'' (PStr ''False'') of
             Inl e \<Rightarrow> Inl e
           | Inr config2 \<Rightarrow>
               (case config_set config2 ''executable'' ''perf'' (PStr ''False'') of
                  Inl e \<Rightarrow> Inl e
                | Inr config3 \<Rightarrow> Inr (config3\<lparr>cfg_optionxform := Verbatim\<rparr>))))"

text \<open>
  merge_config mutates the configuration while it iterates over the overrides, and an
  exception leaves the mutations made so far in place. The overrides are given in the
  iteration order of the dictionary; the result is the outcome together with the
  configuration as the call leaves it.
\<close>

fun merge_config ::
    "'f float_ops \<Rightarrow> 'f config \<Rightarrow> (string \<times> 'f pyval) list \<Rightarrow> (py_error + unit) \<times> 'f config" where
  "merge_config ops config [] = (Inr (), config)"
| "merge_config ops config ((k, v) # options) =
     (case map_of section_map k of
        None \<Rightarrow> (Inl (UnrecognizedOption k), config)
      | Some section \<Rightarrow>
          (case (if \<not> has_section config section then add_section config section
                 else Inr config) of
             Inl e \<Rightarrow> (Inl e, config)
           | Inr config1 \<Rightarrow>
               (let v1 = (if py_eq_bool ops v True then PStr ''yes'' else v);
                    v2 = (if py_eq_bool ops v1 False then PStr ''no'' else v1)
                in case config_set config1 section k v2 of
                     Inl e \<Rightarrow> (Inl e, config1)
                   | Inr config2 \<Rightarrow> merge_config ops config2 options)))"

definition data_types :: "(string \<times> string) list" where
  "data_types =
     [(''depthFile'', ''2dT''),
      (''spongeHTimeScaleFile'', ''3dT''),
      (''spongeUTimeScaleFile'', ''3dU''),
      (''spongeVTimeScaleFile'', ''3dV''),
      (''spongeHFile'', ''3dT''),
      (''spongeUFile'', ''3dU''),
      (''spongeVFile'', ''3dV''),
      (''fUfile'', ''2dU''),
      (''fVfile'', ''2dV''),
      (''wetMaskFile'', ''2dT''),
      (''initUfile'', ''3dU''),
      (''initVfile'', ''3dV''),
      (''initHfile'', ''3dT''),
      (''initEtaFile'', ''2dT''),
      (''zonalWindFile'', ''2dU''),
      (''meridionalWindFile'', ''2dV''),
      (''wind_mag_time_series_file'', ''time'')]"

definition is_file_name_option :: "string \<Rightarrow> bool" where
  "is_file_name_option name = (endswith name ''File'' \<or> endswith name ''file'')"

section \<open>Parameter-file generation (driver.py)\<close>

text \<open>\<open>os.path.join\<close> of two components.\<close>

definition path_join :: "string \<Rightarrow> string \<Rightarrow> string" where
  "path_join a b =
     (if startswith b ''/'' then b
      else if a = [] \<or> endswith a ''/'' then a @ b
      else a @ ''/'' @ b)"

text \<open>
  fortran_option_string returns text for a file option and for the three boolean
  flags, the stored object itself for every other option that is set, and \<open>None\<close> for
  one that is not.
\<close>

definition fortran_option_string :: "string \<Rightarrow> string \<Rightarrow> 'f config \<Rightarrow> py_error + 'f pyval option" where
  "fortran_option_string section name config =
     (if is_file_name_option name
      then (if has_option config section name
            then Inr (Some (PStr ([CHR 0x27] @ path_join ''input'' (name @ ''.bin'') @ [CHR 0x27])))
            else Inr (Some (PStr [CHR 0x27, CHR 0x27])))
      else if name \<in> set [''RedGrav'', ''DumpWind'', ''RelativeWind'']
      then (case getboolean config section name of
              Inl e \<Rightarrow> Inl e
            | Inr b \<Rightarrow> Inr (Some (PStr (if b then ''.TRUE.'' else ''.FALSE.''))))
      else (if has_option config section name
            then (case config_get config section name of
                    Inl e \<Rightarrow> Inl e
                  | Inr v \<Rightarrow> Inr (Some v))
            else Inr None))"

text \<open>
  \<open>'%s' % v\<close>: text stands for itself; the rendering of any other object is the
  parameter \<open>str_of\<close>.
\<close>

definition py_format :: "('f pyval \<Rightarrow> string) \<Rightarrow> 'f pyval \<Rightarrow> string" where
  "py_format str_of v = (case v of PStr s \<Rightarrow> s | _ \<Rightarrow> str_of v)"

text \<open>
  generate_parameters_file. \<open>items\<close> is \<open>section_map.iteritems()\<close>: the pairs of the
  table in the iteration order of the dictionary, which Python 2 leaves unspecified.
  The result is the text written to parameters.in; opening the file is taken to
  succeed. The inner loop is \<open>render_options\<close>, the outer one \<open>render_sections\<close>.
\<close>

fun render_options ::
    "(string \<times> string) list \<Rightarrow> ('f pyval \<Rightarrow> string) \<Rightarrow> string \<Rightarrow> 'f config \<Rightarrow> py_error + string" where
  "render_options [] str_of section config = Inr []"
| "render_options ((name, section1) # items) str_of section config =
     (if section1 \<noteq> section then render_options items str_of section config
      else case fortran_option_string section name config of
             Inl e \<Rightarrow> Inl e
           | Inr None \<Rightarrow> render_options items str_of section config
           | Inr (Some val) \<Rightarrow>
               (case render_options items str_of section config of
                  Inl e \<Rightarrow> Inl e
                | Inr rest \<Rightarrow>
                    Inr ('' '' @ name @ '' = '' @ py_format str_of val @ '','' @ [CHR 0x0A] @ rest)))"

fun render_sections ::
    "(string \<times> string) list \<Rightarrow> ('f pyval \<Rightarrow> string) \<Rightarrow> string list \<Rightarrow> 'f config \<Rightarrow> py_error + string" where
  "render_sections items str_of [] config = Inr []"
| "render_sections items str_of (section # rest) config =
     (if section \<notin> set sections then Inl (UnexpectedSection section)
      else case render_options items str_of section config of
             Inl e \<Rightarrow> Inl e
           | Inr body \<Rightarrow>
               (case render_sections items str_of rest config of
                  Inl e \<Rightarrow> Inl e
                | Inr later \<Rightarrow>
                    Inr ('' &'' @ str_upper section @ [CHR 0x0A] @ body @ '' /'' @ [CHR 0x0A] @ later)))"

definition generate_parameters_file ::
    "(string \<times> string) list \<Rightarrow> ('f pyval \<Rightarrow> string) \<Rightarrow> 'f config \<Rightarrow> py_error + string" where
  "generate_parameters_file items str_of config =
     render_sections items str_of (config_sections config) config"

section \<open>Field generator library (core.py)\<close>

text \<open>
  \<open>np.ones(shape)\<close> for a tuple of integers: a negative dimension raises ValueError.
  \<open>np.ones(a, b)\<close> with two integers passes \<open>b\<close> as the dtype, which raises TypeError
  for every integer. \<open>np.meshgrid(xs, ys)\<close> returns two arrays of shape
  \<open>(len(ys), len(xs))\<close>, the first repeating \<open>xs\<close> along the rows and the second
  repeating each element of \<open>ys\<close> along its row.
\<close>

definition np_ones :: "'f float_ops \<Rightarrow> int list \<Rightarrow> py_error + 'f ndarray" where
  "np_ones ops dims =
     (if list_ex (\<lambda>d. d < 0) dims then Inl ValueError
      else Inr \<lparr>shape = map nat dims,
                flat = replicate (prod_list (map nat dims)) (fl_of_int ops 1)\<rparr>)"

definition np_ones_dtype :: "int \<Rightarrow> int \<Rightarrow> py_error + 'f ndarray" where
  "np_ones_dtype a b = Inl TypeError"

definition np_meshgrid :: "'f list \<Rightarrow> 'f list \<Rightarrow> 'f ndarray \<times> 'f ndarray" where
  "np_meshgrid xs ys =
     (\<lparr>shape = [length ys, length xs], flat = concat (replicate (length ys) xs)\<rparr>,
      \<lparr>shape = [length ys, length xs], flat = concat (map (replicate (length xs)) ys)\<rparr>)"

definition np_scalar :: "'f \<Rightarrow> 'f ndarray" where
  "np_scalar v = \<lparr>shape = [], flat = [v]\<rparr>"

text \<open>
  Broadcasting a value to the shape \<open>ts\<close> of the slice it is assigned to: leading axes
  of the value beyond the rank of \<open>ts\<close> must have length 1, and every other axis must
  have the length of the target axis or length 1; otherwise numpy raises ValueError.
\<close>

definition np_broadcast_to :: "nat list \<Rightarrow> 'f ndarray \<Rightarrow> py_error + 'f ndarray" where
  "np_broadcast_to ts a =
     (let ss = shape a;
          extra = length ss - length ts;
          pad = replicate (length ts - length (drop extra ss)) 1 @ drop extra ss
      in if list_ex (\<lambda>d. d \<noteq> 1) (take extra ss)
            \<or> list_ex (\<lambda>st. fst st \<noteq> snd st \<and> fst st \<noteq> 1) (zip pad ts)
         then Inl ValueError
         else Inr \<lparr>shape = ts,
                   flat = map (\<lambda>n. flat a !
                                 c_index pad
                                   (map (\<lambda>si. if fst si = 1 then 0 else snd si)
                                      (zip pad (unravel ts n))))
                            [0..<prod_list ts]\<rparr>)"

text \<open>\<open>T[i,:,:] = value\<close> on a three-dimensional array.\<close>

definition assign_layer :: "'f ndarray \<Rightarrow> nat \<Rightarrow> 'f ndarray \<Rightarrow> py_error + 'f ndarray" where
  "assign_layer T i val =
     (case shape T of
        [] \<Rightarrow> Inl IndexError
      | l # plane \<Rightarrow>
          if i < l
          then (case np_broadcast_to plane val of
                  Inl e \<Rightarrow> Inl e
                | Inr b \<Rightarrow>
                    Inr (T\<lparr>flat := take (i * prod_list plane) (flat T) @ flat b
                                   @ drop ((i + 1) * prod_list plane) (flat T)\<rparr>))
          else Inl IndexError)"

text \<open>
  Calling a value with the two meshed arrays: only a function can be called, anything
  else raises TypeError. \<open>len(v)\<close> and iteration are defined for lists and text only.
\<close>

fun py_call :: "'f pyval \<Rightarrow> 'f ndarray \<Rightarrow> 'f ndarray \<Rightarrow> py_error + 'f ndarray" where
  "py_call (PFn g) X Y = g X Y"
| "py_call (PBool c) X Y = Inl TypeError"
| "py_call (PInt n) X Y = Inl TypeError"
| "py_call (PFloat x) X Y = Inl TypeError"
| "py_call (PStr s) X Y = Inl TypeError"
| "py_call (PList vs) X Y = Inl TypeError"

fun py_iter :: "'f pyval \<Rightarrow> py_error + 'f pyval list" where
  "py_iter (PList vs) = Inr vs"
| "py_iter (PStr s) = Inr (map (\<lambda>c. PStr [c]) s)"
| "py_iter (PBool c) = Inl TypeError"
| "py_iter (PInt n) = Inl TypeError"
| "py_iter (PFloat x) = Inl TypeError"
| "py_iter (PFn g) = Inl TypeError"

text \<open>
  tracer_point_variable_2d (lines 100 to 107). Its parameters are \<open>grid\<close> and
  \<open>*h_funcs\<close>, its locals \<open>X\<close>, \<open>Y\<close> and \<open>T_variable_2d\<close>; the name \<open>f\<close> that line 103 reads
  is bound neither there nor at module level nor as a builtin, so evaluating
  \<open>isinstance(f, (int, long, float))\<close> raises NameError once the two lines before it
  have run.
\<close>

definition tracer_point_variable_2d ::
    "'f float_ops \<Rightarrow> 'f grid \<Rightarrow> 'f pyval list \<Rightarrow> py_error + 'f ndarray" where
  "tracer_point_variable_2d ops grid h_funcs =
     (case np_meshgrid (grid_x grid) (grid_y grid) of
        (X, Y) \<Rightarrow>
          (case np_ones ops [grid_ny grid, grid_nx grid] of
             Inl e \<Rightarrow> Inl e
           | Inr T_variable_2d \<Rightarrow> Inl NameError))"

text \<open>tracer_point_variable_3d (lines 109 to 119); \<open>tracer_layers\<close> is its loop.\<close>

fun tracer_layers ::
    "'f float_ops \<Rightarrow> 'f ndarray \<Rightarrow> 'f ndarray \<Rightarrow> 'f ndarray \<Rightarrow> nat \<Rightarrow> 'f pyval list
      \<Rightarrow> py_error + 'f ndarray" where
  "tracer_layers ops X Y T i [] = Inr T"
| "tracer_layers ops X Y T i (f # rest) =
     (case (if is_number f then assign_layer T i (np_scalar (number_value ops f))
            else (case py_call f X Y of
                    Inl e \<Rightarrow> Inl e
                  | Inr r \<Rightarrow> assign_layer T i r)) of
        Inl e \<Rightarrow> Inl e
      | Inr T1 \<Rightarrow> tracer_layers ops X Y T1 (i + 1) rest)"

definition tracer_point_variable_3d ::
    "'f float_ops \<Rightarrow> 'f grid \<Rightarrow> 'f pyval list \<Rightarrow> py_error + 'f ndarray" where
  "tracer_point_variable_3d ops grid h_funcs =
     (case np_meshgrid (grid_x grid) (grid_y grid) of
        (X, Y) \<Rightarrow>
          (case np_ones ops [grid_layers grid, grid_ny grid, grid_nx grid] of
             Inl e \<Rightarrow> Inl e
           | Inr T_variable_3d \<Rightarrow>
               if grid_layers grid \<noteq> int (length h_funcs) then Inl AssertionError
               else tracer_layers ops X Y T_variable_3d 0 h_funcs))"

text \<open>u_point_variable_2d (lines 121 to 127).\<close>

definition u_point_variable_2d ::
    "'f float_ops \<Rightarrow> 'f grid \<Rightarrow> 'f pyval \<Rightarrow> py_error + 'f ndarray" where
  "u_point_variable_2d ops grid func =
     (case np_meshgrid (grid_xp1 grid) (grid_y grid) of
        (X, Y) \<Rightarrow>
          if is_number func
          then (case np_ones_dtype (grid_ny grid) (grid_nx grid + 1) of
                  Inl e \<Rightarrow> Inl e
                | Inr ones \<Rightarrow>
                    Inr (ones\<lparr>flat := map (\<lambda>a. fl_mul ops a (number_value ops func)) (flat ones)\<rparr>))
          else py_call func X Y)"

text \<open>
  u_point_variable_3d (lines 129 to 139); \<open>u_layers\<close> is its loop. Line 135 tests
  \<open>isinstance(func, ...)\<close>, the whole argument, where tracer_point_variable_3d tests
  the loop variable \<open>f\<close>.
\<close>

fun u_layers ::
    "'f float_ops \<Rightarrow> 'f grid \<Rightarrow> 'f pyval \<Rightarrow> 'f ndarray \<Rightarrow> 'f ndarray \<Rightarrow> 'f ndarray \<Rightarrow> nat
      \<Rightarrow> 'f pyval list \<Rightarrow> py_error + 'f ndarray" where
  "u_layers ops grid func X Y T i [] = Inr T"
| "u_layers ops grid func X Y T i (f # rest) =
     (case (if is_number func
            then (case np_ones_dtype (grid_ny grid) (grid_nx grid + 1) of
                    Inl e \<Rightarrow> Inl e
                  | Inr ones \<Rightarrow>
                      assign_layer T i
                        (ones\<lparr>flat := map (\<lambda>a. fl_mul ops a (number_value ops f)) (flat ones)\<rparr>))
            else (case py_call f X Y of
                    Inl e \<Rightarrow> Inl e
                  | Inr r \<Rightarrow> assign_layer T i r)) of
        Inl e \<Rightarrow> Inl e
      | Inr T1 \<Rightarrow> u_layers ops grid func X Y T1 (i + 1) rest)"

definition u_point_variable_3d ::
    "'f float_ops \<Rightarrow> 'f grid \<Rightarrow> 'f pyval \<Rightarrow> py_error + 'f ndarray" where
  "u_point_variable_3d ops grid func =
     (case np_meshgrid (grid_xp1 grid) (grid_y grid) of
        (X, Y) \<Rightarrow>
          (case np_ones ops [grid_layers grid, grid_ny grid, grid_nx grid + 1] of
             Inl e \<Rightarrow> Inl e
           | Inr u_variable_3d \<Rightarrow>
               (case py_iter func of
                  Inl e \<Rightarrow> Inl e
                | Inr fs \<Rightarrow>
                    if grid_layers grid \<noteq> int (length fs) then Inl AssertionError
                    else u_layers ops grid func X Y u_variable_3d 0 fs)))"

text \<open>v_point_variable_2d (lines 141 to 147); it meshes \<open>(grid.y, grid.xp1)\<close>.\<close>

definition v_point_variable_2d ::
    "'f float_ops \<Rightarrow> 'f grid \<Rightarrow> 'f pyval \<Rightarrow> py_error + 'f ndarray" where
  "v_point_variable_2d ops grid func =
     (case np_meshgrid (grid_y grid) (grid_xp1 grid) of
        (X, Y) \<Rightarrow>
          if is_number func
          then (case np_ones_dtype (grid_ny grid + 1) (grid_nx grid) of
                  Inl e \<Rightarrow> Inl e
                | Inr ones \<Rightarrow>
                    Inr (ones\<lparr>flat := map (\<lambda>a. fl_mul ops a (number_value ops func)) (flat ones)\<rparr>))
          else py_call func X Y)"

text \<open>v_point_variable_3d (lines 149 to 159); \<open>v_layers\<close> is its loop.\<close>

fun v_layers ::
    "'f float_ops \<Rightarrow> 'f grid \<Rightarrow> 'f pyval \<Rightarrow> 'f ndarray \<Rightarrow> 'f ndarray \<Rightarrow> 'f ndarray \<Rightarrow> nat
      \<Rightarrow> 'f pyval list \<Rightarrow> py_error + 'f ndarray" where
  "v_layers ops grid func X Y T i [] = Inr T"
| "v_layers ops grid func X Y T i (f # rest) =
     (case (if is_number func
            then (case np_ones_dtype (grid_ny grid) (grid_nx grid) of
                    Inl e \<Rightarrow> Inl e
                  | Inr ones \<Rightarrow>
                      assign_layer T i
                        (ones\<lparr>flat := map (\<lambda>a. fl_mul ops a (number_value ops f)) (flat ones)\<rparr>))
            else (case py_call f X Y of
                    Inl e \<Rightarrow> Inl e
                  | Inr r \<Rightarrow> assign_layer T i r)) of
        Inl e \<Rightarrow> Inl e
      | Inr T1 \<Rightarrow> v_layers ops grid func X Y T1 (i + 1) rest)"

definition v_point_variable_3d ::
    "'f float_ops \<Rightarrow> 'f grid \<Rightarrow> 'f pyval \<Rightarrow> py_error + 'f ndarray" where
  "v_point_variable_3d ops grid func =
     (case np_meshgrid (grid_x grid) (grid_yp1 grid) of
        (X, Y) \<Rightarrow>
          (case np_ones ops [grid_layers grid, grid_ny grid + 1, grid_nx grid] of
             Inl e \<Rightarrow> Inl e
           | Inr v_variable_3d \<Rightarrow>
               (case py_iter func of
                  Inl e \<Rightarrow> Inl e
                | Inr fs \<Rightarrow>
                    if grid_layers grid \<noteq> int (length fs) then Inl AssertionError
                    else v_layers ops grid func X Y v_variable_3d 0 fs)))"

text \<open>
  The specific construction helpers (lines 163 to 191). \<open>np.ones(...) * coeff\<close> and
  \<open>f0 + Y*beta\<close> act on every element; rectangular_pool assigns to row and column \<open>0\<close>
  and \<open>-1\<close>, which raises IndexError on an axis of length 0.
\<close>

definition f_plane_f_u :: "'f float_ops \<Rightarrow> 'f grid \<Rightarrow> 'f \<Rightarrow> py_error + 'f ndarray" where
  "f_plane_f_u ops grid coeff =
     (case np_ones ops [grid_nx grid + 1, grid_ny grid] of
        Inl e \<Rightarrow> Inl e
      | Inr ones \<Rightarrow> Inr (ones\<lparr>flat := map (\<lambda>a. fl_mul ops a coeff) (flat ones)\<rparr>))"

definition f_plane_f_v :: "'f float_ops \<Rightarrow> 'f grid \<Rightarrow> 'f \<Rightarrow> py_error + 'f ndarray" where
  "f_plane_f_v ops grid coeff =
     (case np_ones ops [grid_nx grid, grid_ny grid + 1] of
        Inl e \<Rightarrow> Inl e
      | Inr ones \<Rightarrow> Inr (ones\<lparr>flat := map (\<lambda>a. fl_mul ops a coeff) (flat ones)\<rparr>))"

definition beta_plane_f_u :: "'f float_ops \<Rightarrow> 'f grid \<Rightarrow> 'f \<Rightarrow> 'f \<Rightarrow> py_error + 'f ndarray" where
  "beta_plane_f_u ops grid f0 beta =
     (case np_meshgrid (grid_xp1 grid) (grid_y grid) of
        (X, Y) \<Rightarrow> Inr (Y\<lparr>flat := map (\<lambda>a. fl_add ops f0 (fl_mul ops a beta)) (flat Y)\<rparr>))"

definition beta_plane_f_v :: "'f float_ops \<Rightarrow> 'f grid \<Rightarrow> 'f \<Rightarrow> 'f \<Rightarrow> py_error + 'f ndarray" where
  "beta_plane_f_v ops grid f0 beta =
     (case np_meshgrid (grid_x grid) (grid_yp1 grid) of
        (X, Y) \<Rightarrow> Inr (Y\<lparr>flat := map (\<lambda>a. fl_add ops f0 (fl_mul ops a beta)) (flat Y)\<rparr>))"

definition rectangular_pool :: "'f float_ops \<Rightarrow> 'f grid \<Rightarrow> py_error + 'f ndarray" where
  "rectangular_pool ops grid =
     (case np_ones ops [grid_nx grid, grid_ny grid] of
        Inl e \<Rightarrow> Inl e
      | Inr wetmask \<Rightarrow>
          if grid_nx grid = 0 \<or> grid_ny grid = 0 then Inl IndexError
          else Inr (wetmask
                 \<lparr>flat := map (\<lambda>n. if n div nat (grid_ny grid) = 0
                                       \<or> n div nat (grid_ny grid) = nat (grid_nx grid) - 1
                                       \<or> n mod nat (grid_ny grid) = 0
                                       \<or> n mod nat (grid_ny grid) = nat (grid_ny grid) - 1
                                    then fl_of_int ops 0 else flat wetmask ! n)
                            [0..<length (flat wetmask)]\<rparr>))"

section \<open>Data-specification interpreter (core.py)\<close>

datatype generator =
    Tracer_point_variable_2d | Tracer_point_variable_3d
  | U_point_variable_2d | U_point_variable_3d
  | V_point_variable_2d | V_point_variable_3d
  | Beta_plane_f_u | Beta_plane_f_v | F_plane_f_u | F_plane_f_v
  | Rectangular_pool

definition ok_generators :: "(string \<times> generator) list" where
  "ok_generators =
     [(''tracer_point_variable_2d'', Tracer_point_variable_2d),
      (''tracer_point_variable_3d'', Tracer_point_variable_3d),
      (''u_point_variable_2d'', U_point_variable_2d),
      (''u_point_variable_3d'', U_point_variable_3d),
      (''v_point_variable_2d'', V_point_variable_2d),
      (''v_point_variable_3d'', V_point_variable_3d),
      (''beta_plane_f_u'', Beta_plane_f_u),
      (''beta_plane_f_v'', Beta_plane_f_v),
      (''f_plane_f_u'', F_plane_f_u),
      (''f_plane_f_v'', F_plane_f_v),
      (''rectangular_pool'', Rectangular_pool)]"

text \<open>
  \<open>func(grid, *args)\<close> for a registered generator and a list of floats: the variadic
  generators take any number of arguments, the others raise TypeError unless the
  number of arguments is the one they declare.
\<close>

fun call_generator ::
    "'f float_ops \<Rightarrow> generator \<Rightarrow> 'f grid \<Rightarrow> 'f list \<Rightarrow> py_error + 'f ndarray" where
  "call_generator ops Tracer_point_variable_2d grid args =
     tracer_point_variable_2d ops grid (map PFloat args)"
| "call_generator ops Tracer_point_variable_3d grid args =
     tracer_point_variable_3d ops grid (map PFloat args)"
| "call_generator ops U_point_variable_2d grid [a] = u_point_variable_2d ops grid (PFloat a)"
| "call_generator ops U_point_variable_3d grid [a] = u_point_variable_3d ops grid (PFloat a)"
| "call_generator ops V_point_variable_2d grid [a] = v_point_variable_2d ops grid (PFloat a)"
| "call_generator ops V_point_variable_3d grid [a] = v_point_variable_3d ops grid (PFloat a)"
| "call_generator ops Beta_plane_f_u grid [f0, beta] = beta_plane_f_u ops grid f0 beta"
| "call_generator ops Beta_plane_f_v grid [f0, beta] = beta_plane_f_v ops grid f0 beta"
| "call_generator ops F_plane_f_u grid [coeff] = f_plane_f_u ops grid coeff"
| "call_generator ops F_plane_f_v grid [coeff] = f_plane_f_v ops grid coeff"
| "call_generator ops Rectangular_pool grid [] = rectangular_pool ops grid"
| "call_generator ops gen grid args = Inl TypeError"

text \<open>
  \<open>re.match(r':(.*):(.*)', string)\<close>: the text must start with a colon; \<open>.\<close> does not
  match a newline and \<open>*\<close> is greedy, so within the first line the first group runs to
  the last colon and the second group is what follows it.
\<close>

definition match_specifier :: "string \<Rightarrow> (string \<times> string) option" where
  "match_specifier string =
     (case string of
        [] \<Rightarrow> None
      | c # rest \<Rightarrow>
          if c \<noteq> CHR '':'' then None
          else (let line = takeWhile (\<lambda>d. d \<noteq> CHR 0x0A) rest
                in if CHR '':'' \<notin> set line then None
                   else Some (rev (tl (dropWhile (\<lambda>d. d \<noteq> CHR '':'') (rev line))),
                              rev (takeWhile (\<lambda>d. d \<noteq> CHR '':'') (rev line)))))"

text \<open>\<open>s.split(',')\<close>.\<close>

fun split_comma :: "string \<Rightarrow> string list" where
  "split_comma [] = [[]]"
| "split_comma (c # cs) =
     (if c = CHR '','' then [] # split_comma cs
      else (case split_comma cs of
              [] \<Rightarrow> [[c]]
            | w # ws \<Rightarrow> (c # w) # ws))"

text \<open>\<open>[float(a) for a in parts]\<close>: the first text that is not a float raises ValueError.\<close>

fun floats_of :: "(string \<Rightarrow> 'f option) \<Rightarrow> string list \<Rightarrow> py_error + 'f list" where
  "floats_of str_float [] = Inr []"
| "floats_of str_float (a # rest) =
     (case str_float a of
        None \<Rightarrow> Inl ValueError
      | Some x \<Rightarrow>
          (case floats_of str_float rest of
             Inl e \<Rightarrow> Inl e
           | Inr xs \<Rightarrow> Inr (x # xs)))"

text \<open>
  interpret_data_specifier (lines 210 to 221): \<open>None\<close> when the text is no specifier,
  otherwise the generator and its arguments, or the exception raised on the way.
\<close>

definition interpret_data_specifier ::
    "(string \<Rightarrow> 'f option) \<Rightarrow> string \<Rightarrow> (py_error + generator \<times> 'f list) option" where
  "interpret_data_specifier str_float string =
     (case match_specifier string of
        None \<Rightarrow> None
      | Some (name, arg_str) \<Rightarrow>
          Some (case (if 0 < length arg_str then floats_of str_float (split_comma arg_str)
                      else Inr []) of
                  Inl e \<Rightarrow> Inl e
                | Inr args \<Rightarrow>
                    (case map_of ok_generators name of
                       None \<Rightarrow> Inl KeyError
                     | Some func \<Rightarrow> Inr (func, args))))"

text \<open>
  interpret_requested_data. Its first statement (lines 250 to 252) is
  \<open>grid_of_config\<close>: the five options are read left to right with \<open>getint\<close> and
  \<open>getfloat\<close>, and \<open>Grid\<close> is called with the default origin \<open>x0 = y0 = 0\<close>.
\<close>

definition grid_of_config ::
    "'f float_ops \<Rightarrow> (string \<Rightarrow> int option) \<Rightarrow> (string \<Rightarrow> 'f option) \<Rightarrow> 'f config
      \<Rightarrow> py_error + 'f grid" where
  "grid_of_config ops str_int str_float config =
     (case getint ops str_int config ''grid'' ''nx'' of
        Inl e \<Rightarrow> Inl e
      | Inr nx \<Rightarrow>
     (case getint ops str_int config ''grid'' ''ny'' of
        Inl e \<Rightarrow> Inl e
      | Inr ny \<Rightarrow>
     (case getint ops str_int config ''grid'' ''layers'' of
        Inl e \<Rightarrow> Inl e
      | Inr layers \<Rightarrow>
     (case getfloat ops str_float config ''grid'' ''dx'' of
        Inl e \<Rightarrow> Inl e
      | Inr dx \<Rightarrow>
     (case getfloat ops str_float config ''grid'' ''dy'' of
        Inl e \<Rightarrow> Inl e
      | Inr dy \<Rightarrow> Grid ops nx ny layers dx dy (fl_of_int ops 0) (fl_of_int ops 0))))))"

text \<open>
  The rest of interpret_requested_data (lines 253 to 276). Text is a specifier or the
  name of a raw file, whose record is returned as it is; any other object is
  dispatched on the shape tag, \<open>*requested_data\<close> unpacking the object for the two
  tracer generators.
\<close>

definition interpret_requested_data ::
    "'f float_ops \<Rightarrow> (string \<Rightarrow> int option) \<Rightarrow> (string \<Rightarrow> 'f option) \<Rightarrow> (string \<Rightarrow> 'f list option)
      \<Rightarrow> 'f pyval \<Rightarrow> string \<Rightarrow> 'f config \<Rightarrow> py_error + 'f ndarray" where
  "interpret_requested_data ops str_int str_float fs requested_data shp config =
     (case grid_of_config ops str_int str_float config of
        Inl e \<Rightarrow> Inl e
      | Inr grid \<Rightarrow>
          (case requested_data of
             PStr string \<Rightarrow>
               (case interpret_data_specifier str_float string of
                  Some candidate \<Rightarrow>
                    (case candidate of
                       Inl e \<Rightarrow> Inl e
                     | Inr (func, args) \<Rightarrow> call_generator ops func grid args)
                | None \<Rightarrow>
                    (case read_reals fs string of
                       Inl e \<Rightarrow> Inl e
                     | Inr xs \<Rightarrow> Inr \<lparr>shape = [length xs], flat = xs\<rparr>))
           | _ \<Rightarrow>
               if shp = ''2dT''
               then (case py_iter requested_data of
                       Inl e \<Rightarrow> Inl e
                     | Inr h_funcs \<Rightarrow> tracer_point_variable_2d ops grid h_funcs)
               else if shp = ''3dT''
               then (case py_iter requested_data of
                       Inl e \<Rightarrow> Inl e
                     | Inr h_funcs \<Rightarrow> tracer_point_variable_3d ops grid h_funcs)
               else if shp = ''2dU'' then u_point_variable_2d ops grid requested_data
               else if shp = ''3dU'' then u_point_variable_3d ops grid requested_data
               else if shp = ''2dV'' then v_point_variable_2d ops grid requested_data
               else if shp = ''3dV'' then v_point_variable_3d ops grid requested_data
               else Inl NotImplementedShape))"
section \<open>Properties of the grid\<close>

lemma np_linspace_corner:
  assumes "0 < n"
  shows "\<exists>ys. np_linspace ops start stop (n + 1) = Inr ys
           \<and> length ys = nat n + 1
           \<and> ys ! nat n = stop
           \<and> (\<forall>i<nat n. ys ! i = linspace_sample ops start stop (n + 1) i)"
proof -
  define ys0 where "ys0 = map (linspace_sample ops start stop (n + 1)) [0..<nat (n + 1)]"
  have last_idx: "nat (n + 1) - 1 = nat n" using assms by linarith
  have "np_linspace ops start stop (n + 1) = Inr (ys0[nat (n + 1) - 1 := stop])"
    using assms by (simp add: np_linspace_def Let_def ys0_def)
  then have eq: "np_linspace ops start stop (n + 1) = Inr (ys0[nat n := stop])"
    unfolding last_idx .
  have len: "length ys0 = nat n + 1"
    using assms by (simp add: ys0_def nat_add_distrib)
  have nth0: "ys0 ! i = linspace_sample ops start stop (n + 1) i" if lt: "i < nat n" for i
  proof -
    have "i < nat (n + 1)" using lt assms by linarith
    then show ?thesis by (simp add: ys0_def)
  qed
  have "length (ys0[nat n := stop]) = nat n + 1" using len by simp
  moreover have "(ys0[nat n := stop]) ! nat n = stop" using len by simp
  moreover have "\<forall>i<nat n. (ys0[nat n := stop]) ! i = linspace_sample ops start stop (n + 1) i"
    using nth0 by simp
  ultimately show ?thesis using eq by blast
qed

lemma midpoints_length: "length (midpoints ops a) = length a - 1"
  by (simp add: midpoints_def)

lemma midpoints_nth:
  "i + 1 < length a \<Longrightarrow>
     midpoints ops a ! i = fl_div ops (fl_add ops (a ! (i + 1)) (a ! i)) (fl_of_int ops 2)"
  by (simp add: midpoints_def nth_tl nth_butlast)

text \<open>
  C7. For positive \<open>nx\<close> and \<open>ny\<close> the constructor succeeds. The corner axis \<open>xp1\<close> has
  exactly \<open>nx + 1\<close> points: its last point is \<open>nx*dx+x0\<close> as the program computes it in
  floating point, and every earlier point \<open>i\<close> is the sample that linspace computes for
  start \<open>x0\<close> and that stop. The center axis \<open>x\<close> has exactly \<open>nx\<close> points, point \<open>i\<close> being
  \<open>(xp1[i+1] + xp1[i]) / 2\<close> in floating point. Likewise for \<open>yp1\<close> and \<open>y\<close>. All values
  are stated as the floating-point operations give them; no exact real equality is
  claimed.
\<close>

theorem Grid_axes:
  assumes "0 < nx" and "0 < ny"
  shows "\<exists>g. Grid ops nx ny layers dx dy x0 y0 = Inr g
           \<and> length (grid_xp1 g) = nat nx + 1
           \<and> grid_xp1 g ! nat nx = fl_add ops (fl_mul ops (fl_of_int ops nx) dx) x0
           \<and> (\<forall>i<nat nx. grid_xp1 g ! i =
                  linspace_sample ops x0 (fl_add ops (fl_mul ops (fl_of_int ops nx) dx) x0) (nx + 1) i)
           \<and> length (grid_x g) = nat nx
           \<and> (\<forall>i<nat nx. grid_x g ! i =
                  fl_div ops (fl_add ops (grid_xp1 g ! (i + 1)) (grid_xp1 g ! i)) (fl_of_int ops 2))
           \<and> length (grid_yp1 g) = nat ny + 1
           \<and> grid_yp1 g ! nat ny = fl_add ops (fl_mul ops (fl_of_int ops ny) dy) y0
           \<and> (\<forall>j<nat ny. grid_yp1 g ! j =
                  linspace_sample ops y0 (fl_add ops (fl_mul ops (fl_of_int ops ny) dy) y0) (ny + 1) j)
           \<and> length (grid_y g) = nat ny
           \<and> (\<forall>j<nat ny. grid_y g ! j =
                  fl_div ops (fl_add ops (grid_yp1 g ! (j + 1)) (grid_yp1 g ! j)) (fl_of_int ops 2))"
proof -
  let ?xstop = "fl_add ops (fl_mul ops (fl_of_int ops nx) dx) x0"
  let ?ystop = "fl_add ops (fl_mul ops (fl_of_int ops ny) dy) y0"
  obtain xs where xs: "np_linspace ops x0 ?xstop (nx + 1) = Inr xs"
      "length xs = nat nx + 1" "xs ! nat nx = ?xstop"
      "\<forall>i<nat nx. xs ! i = linspace_sample ops x0 ?xstop (nx + 1) i"
    using np_linspace_corner [OF assms(1), of ops x0 ?xstop] by blast
  obtain ys where ys: "np_linspace ops y0 ?ystop (ny + 1) = Inr ys"
      "length ys = nat ny + 1" "ys ! nat ny = ?ystop"
      "\<forall>j<nat ny. ys ! j = linspace_sample ops y0 ?ystop (ny + 1) j"
    using np_linspace_corner [OF assms(2), of ops y0 ?ystop] by blast
  define g where "g = \<lparr>grid_xp1 = xs, grid_yp1 = ys,
                    grid_x = midpoints ops xs, grid_y = midpoints ops ys,
                    grid_nx = nx, grid_ny = ny, grid_layers = layers\<rparr>"
  have "Grid ops nx ny layers dx dy x0 y0 = Inr g"
    by (simp add: Grid_def xs(1) ys(1) g_def)
  moreover have "length (grid_x g) = nat nx" "length (grid_y g) = nat ny"
    by (simp_all add: g_def midpoints_length xs(2) ys(2))
  moreover have "\<forall>i<nat nx. grid_x g ! i =
                  fl_div ops (fl_add ops (grid_xp1 g ! (i + 1)) (grid_xp1 g ! i)) (fl_of_int ops 2)"
    by (simp add: g_def midpoints_nth xs(2))
  moreover have "\<forall>j<nat ny. grid_y g ! j =
                  fl_div ops (fl_add ops (grid_yp1 g ! (j + 1)) (grid_yp1 g ! j)) (fl_of_int ops 2)"
    by (simp add: g_def midpoints_nth ys(2))
  moreover have "length (grid_xp1 g) = nat nx + 1" "length (grid_yp1 g) = nat ny + 1"
      "grid_xp1 g ! nat nx = ?xstop" "grid_yp1 g ! nat ny = ?ystop"
      "\<forall>i<nat nx. grid_xp1 g ! i = linspace_sample ops x0 ?xstop (nx + 1) i"
      "\<forall>j<nat ny. grid_yp1 g ! j = linspace_sample ops y0 ?ystop (ny + 1) j"
    using xs ys by (simp_all add: g_def)
  ultimately show ?thesis by blast
qed

theorem Grid_axes_witness:
  "(0::int) < 10 \<and> (0::int) < 20
   \<and> (\<exists>g. Grid exact_ops 10 20 1 100000 100000 0 0 = Inr g
          \<and> length (grid_xp1 g) = 11 \<and> length (grid_x g) = 10
          \<and> length (grid_yp1 g) = 21 \<and> length (grid_y g) = 20
          \<and> grid_xp1 g ! 10 = 1000000 \<and> grid_xp1 g ! 3 = 300000
          \<and> grid_yp1 g ! 20 = 2000000
          \<and> grid_x g ! 9 = 950000)"
proof -
  have h1: "(0::int) < 10" and h2: "(0::int) < 20" by simp_all
  obtain g where g: "Grid exact_ops 10 20 1 100000 100000 0 0 = Inr g"
      "length (grid_xp1 g) = nat 10 + 1"
      "grid_xp1 g ! nat 10 = fl_add exact_ops (fl_mul exact_ops (fl_of_int exact_ops 10) 100000) 0"
      "\<forall>i<nat 10. grid_xp1 g ! i =
          linspace_sample exact_ops 0
            (fl_add exact_ops (fl_mul exact_ops (fl_of_int exact_ops 10) 100000) 0) (10 + 1) i"
      "length (grid_x g) = nat 10"
      "\<forall>i<nat 10. grid_x g ! i =
          fl_div exact_ops (fl_add exact_ops (grid_xp1 g ! (i + 1)) (grid_xp1 g ! i))
            (fl_of_int exact_ops 2)"
      "length (grid_yp1 g) = nat 20 + 1"
      "grid_yp1 g ! nat 20 = fl_add exact_ops (fl_mul exact_ops (fl_of_int exact_ops 20) 100000) 0"
      "length (grid_y g) = nat 20"
    using Grid_axes [OF h1 h2, of exact_ops 1 100000 100000 0 0] by blast
  have a10: "grid_xp1 g ! 10 = 1000000" using g(3) by (simp add: exact_ops_def)
  have b20: "grid_yp1 g ! 20 = 2000000" using g(8) by (simp add: exact_ops_def)
  have a3: "grid_xp1 g ! 3 = 300000"
    using g(4) [THEN spec, of 3] by (simp add: exact_ops_def linspace_sample_def)
  have a9: "grid_xp1 g ! 9 = 900000"
    using g(4) [THEN spec, of 9] by (simp add: exact_ops_def linspace_sample_def)
  have x9: "grid_x g ! 9 = 950000"
    using g(6) [THEN spec, of 9] a9 a10 by (simp add: exact_ops_def)
  show ?thesis using g(1,2,5,7,9) a10 a3 b20 x9 by auto
qed

section \<open>The raw-file reader\<close>

lemma startswith_iff: "startswith s p \<longleftrightarrow> (\<exists>t. s = p @ t)"
  by (induction s p rule: startswith.induct) auto

lemma raw_file_convention_spec: "raw_file_convention s = spec_convention s"
proof -
  consider "startswith s ''snap.h''" | "startswith s ''snap.u''" | "startswith s ''snap.v''"
    | "startswith s ''snap.eta''" | "startswith s ''wind_x''" | "startswith s ''wind_y''"
    | "startswith s ''av.h''" | "startswith s ''av.u''" | "startswith s ''av.v''"
    | "startswith s ''av.eta''"
    | "\<not> startswith s ''snap.h'' \<and> \<not> startswith s ''snap.u'' \<and> \<not> startswith s ''snap.v''
       \<and> \<not> startswith s ''snap.eta'' \<and> \<not> startswith s ''wind_x'' \<and> \<not> startswith s ''wind_y''
       \<and> \<not> startswith s ''av.h'' \<and> \<not> startswith s ''av.u'' \<and> \<not> startswith s ''av.v''
       \<and> \<not> startswith s ''av.eta''"
    by blast
  then show ?thesis
  proof cases
    case 1
    then obtain t where "s = ''snap.h'' @ t" unfolding startswith_iff by blast
    then show ?thesis
      by (simp add: raw_file_convention_def spec_convention_def spec_prefix_table_def)
  next
    case 2
    then obtain t where "s = ''snap.u'' @ t" unfolding startswith_iff by blast
    then show ?thesis
      by (simp add: raw_file_convention_def spec_convention_def spec_prefix_table_def)
  next
    case 3
    then obtain t where "s = ''snap.v'' @ t" unfolding startswith_iff by blast
    then show ?thesis
      by (simp add: raw_file_convention_def spec_convention_def spec_prefix_table_def)
  next
    case 4
    then obtain t where "s = ''snap.eta'' @ t" unfolding startswith_iff by blast
    then show ?thesis
      by (simp add: raw_file_convention_def spec_convention_def spec_prefix_table_def)
  next
    case 5
    then obtain t where "s = ''wind_x'' @ t" unfolding startswith_iff by blast
    then show ?thesis
      by (simp add: raw_file_convention_def spec_convention_def spec_prefix_table_def)
  next
    case 6
    then obtain t where "s = ''wind_y'' @ t" unfolding startswith_iff by blast
    then show ?thesis
      by (simp add: raw_file_convention_def spec_convention_def spec_prefix_table_def)
  next
    case 7
    then obtain t where "s = ''av.h'' @ t" unfolding startswith_iff by blast
    then show ?thesis
      by (simp add: raw_file_convention_def spec_convention_def spec_prefix_table_def)
  next
    case 8
    then obtain t where "s = ''av.u'' @ t" unfolding startswith_iff by blast
    then show ?thesis
      by (simp add: raw_file_convention_def spec_convention_def spec_prefix_table_def)
  next
    case 9
    then obtain t where "s = ''av.v'' @ t" unfolding startswith_iff by blast
    then show ?thesis
      by (simp add: raw_file_convention_def spec_convention_def spec_prefix_table_def)
  next
    case 10
    then obtain t where "s = ''av.eta'' @ t" unfolding startswith_iff by blast
    then show ?thesis
      by (simp add: raw_file_convention_def spec_convention_def spec_prefix_table_def)
  next
    case 11
    then show ?thesis
      by (simp add: raw_file_convention_def spec_convention_def spec_prefix_table_def)
  qed
qed

lemma np_transpose_shape: "shape (np_transpose a) = rev (shape a)"
  by (simp add: np_transpose_def)

lemma np_reshape_exact:
  assumes "list_all (\<lambda>d. 0 \<le> d) dims" and "prod_list dims = int (length xs)"
  shows "np_reshape xs dims = Inr \<lparr>shape = map nat dims, flat = xs\<rparr>"
proof -
  have "filter (\<lambda>d. d = - 1) dims = []"
    using assms(1) by (induction dims) auto
  moreover have "\<not> list_ex (\<lambda>d. d < - 1) dims"
    using assms(1) by (induction dims) auto
  ultimately show ?thesis using assms(2) by (simp add: np_reshape_def Let_def)
qed


lemma c_index_less: "list_all2 (<) idx sh \<Longrightarrow> c_index sh idx < prod_list sh"
proof (induction idx sh rule: list_all2_induct)
  case Nil
  then show ?case by simp
next
  case (Cons i js d ds)
  have "i * prod_list ds + c_index ds js < (i + 1) * prod_list ds"
    using Cons.IH by simp
  also have "\<dots> \<le> d * prod_list ds"
    using Cons.hyps(1) by (intro mult_le_mono1) simp
  finally show ?case by simp
qed

lemma unravel_c_index: "list_all2 (<) idx sh \<Longrightarrow> unravel sh (c_index sh idx) = idx"
proof (induction idx sh rule: list_all2_induct)
  case Nil
  then show ?case by simp
next
  case (Cons i js d ds)
  have "c_index ds js < prod_list ds" using Cons.hyps(2) by (rule c_index_less)
  then show ?case using Cons.IH by simp
qed

text \<open>Transposition reverses the axes: element \<open>idx\<close> of the result is element \<open>rev idx\<close>.\<close>

lemma np_transpose_get:
  assumes "length (flat a) = prod_list (shape a)"
    and "list_all2 (<) idx (rev (shape a))"
  shows "np_get (np_transpose a) idx = np_get a (rev idx)"
proof -
  have "c_index (rev (shape a)) idx < prod_list (rev (shape a))"
    using assms(2) by (rule c_index_less)
  then have lt: "c_index (rev (shape a)) idx < length (flat a)"
    using assms(1) by simp
  have "unravel (rev (shape a)) (c_index (rev (shape a)) idx) = idx"
    using assms(2) by (rule unravel_c_index)
  then show ?thesis using lt by (simp add: np_get_def np_transpose_def)
qed

lemma spec_convention_row:
  assumes "(p, c) \<in> set spec_prefix_table" and "startswith s p"
  shows "spec_convention s = c"
proof -
  obtain t where s: "s = p @ t" using assms(2) unfolding startswith_iff by blast
  have "(p, c) \<in> {(''snap.h'', 0, 0, True), (''av.h'', 0, 0, True),
      (''snap.u'', 1, 0, True), (''av.u'', 1, 0, True),
      (''snap.v'', 0, 1, True), (''av.v'', 0, 1, True),
      (''snap.eta'', 0, 0, False), (''av.eta'', 0, 0, False),
      (''wind_x'', 1, 0, False), (''wind_y'', 0, 1, False)}"
    using assms(1) by (simp add: spec_prefix_table_def)
  then show ?thesis
    unfolding s
    by (elim insertE emptyE; simp add: spec_convention_def spec_prefix_table_def)
qed

lemma spec_convention_offsets:
  "0 \<le> fst (spec_convention s) \<and> 0 \<le> fst (snd (spec_convention s))"
  by (simp add: spec_convention_def spec_prefix_table_def)

text \<open>
  C1. When the record of the named file has as many elements as the shape needs,
  interpret_raw_file returns the record reshaped to \<open>(layers, ny + dy, nx + dx)\<close> (or
  \<open>(ny + dy, nx + dx)\<close> when unlayered) with its axes reversed, where \<open>dx\<close>, \<open>dy\<close> and the
  layering are those of the specification's prefix table for the base name, and the
  plain layered tracer shape \<open>(nx, ny, layers)\<close> for a base name matching no prefix.
\<close>

theorem interpret_raw_file_spec:
  assumes "fs name = Some xs" and "0 \<le> nx" and "0 \<le> ny" and "0 \<le> layers"
    and "spec_convention (basename name) = (dx, dy, layered)"
    and "int (length xs) = (if layered then layers else 1) * (ny + dy) * (nx + dx)"
  shows "\<exists>a. interpret_raw_file fs name nx ny layers = Inr a
           \<and> a = np_transpose
                 \<lparr>shape = (if layered then [nat layers, nat (ny + dy), nat (nx + dx)]
                           else [nat (ny + dy), nat (nx + dx)]),
                  flat = xs\<rparr>
           \<and> shape a = spec_raw_shape (basename name) nx ny layers
           \<and> shape a = (if layered then [nat (nx + dx), nat (ny + dy), nat layers]
                        else [nat (nx + dx), nat (ny + dy)])
           \<and> (\<forall>idx. list_all2 (<) idx (shape a) \<longrightarrow>
                  np_get a idx = xs ! c_index (rev (shape a)) (rev idx))"
proof -
  have conv: "raw_file_convention (basename name) = (dx, dy, layered)"
    using assms(5) by (simp add: raw_file_convention_spec)
  have off: "0 \<le> dx" "0 \<le> dy"
    using spec_convention_offsets [of "basename name"] by (simp_all add: assms(5))
  define dims where
    "dims = (if layered then [layers, ny + dy, nx + dx] else [ny + dy, nx + dx])"
  define r where "r = \<lparr>shape = map nat dims, flat = xs\<rparr>"
  have nonneg: "list_all (\<lambda>d. 0 \<le> d) dims"
    using assms(2,3,4) off by (simp add: dims_def)
  have prod: "prod_list dims = int (length xs)"
    using assms(6) by (simp add: dims_def)
  have resh: "np_reshape xs dims = Inr r"
    unfolding r_def using nonneg prod by (rule np_reshape_exact)
  have res: "interpret_raw_file fs name nx ny layers = Inr (np_transpose r)"
    using resh assms(1)
    by (auto simp: interpret_raw_file_def conv read_reals_def dims_def split: if_splits)
  have rlen: "length (flat r) = prod_list (shape r)"
  proof -
    have "int (prod_list (map nat dims)) = prod_list dims"
      using nonneg by (induction dims) (simp_all add: nat_mult_distrib)
    then show ?thesis using prod by (simp add: r_def)
  qed
  have sh: "shape (np_transpose r) = rev (map nat dims)"
    by (simp add: np_transpose_shape r_def)
  have el: "np_get (np_transpose r) idx = xs ! c_index (rev (shape (np_transpose r))) (rev idx)"
    if "list_all2 (<) idx (shape (np_transpose r))" for idx
  proof -
    have "list_all2 (<) idx (rev (shape r))" using that by (simp add: np_transpose_shape)
    then have "np_get (np_transpose r) idx = np_get r (rev idx)"
      using rlen by (intro np_transpose_get)
    then show ?thesis by (simp add: np_get_def np_transpose_shape r_def)
  qed
  have "np_transpose r = np_transpose
          \<lparr>shape = (if layered then [nat layers, nat (ny + dy), nat (nx + dx)]
                    else [nat (ny + dy), nat (nx + dx)]),
           flat = xs\<rparr>"
    by (simp add: r_def dims_def)
  moreover have "shape (np_transpose r) = spec_raw_shape (basename name) nx ny layers"
    by (simp add: sh dims_def spec_raw_shape_def assms(5))
  moreover have "shape (np_transpose r) = (if layered then [nat (nx + dx), nat (ny + dy), nat layers]
                        else [nat (nx + dx), nat (ny + dy)])"
    by (simp add: sh dims_def)
  ultimately show ?thesis using res el by blast
qed

theorem interpret_raw_file_spec_witness:
  "[''output/snap.u.0000000100'' \<mapsto> [10, 20, 30, 40, 50, 60 :: int]]
       ''output/snap.u.0000000100'' = Some [10, 20, 30, 40, 50, 60]
   \<and> (0::int) \<le> 2 \<and> (0::int) \<le> 1
   \<and> spec_convention (basename ''output/snap.u.0000000100'') = (1, 0, True)
   \<and> int (length [10, 20, 30, 40, 50, 60 :: int]) = (if True then 2 else 1) * (1 + 0) * (2 + 1)
   \<and> (\<exists>a. interpret_raw_file
              [''output/snap.u.0000000100'' \<mapsto> [10, 20, 30, 40, 50, 60 :: int]]
              ''output/snap.u.0000000100'' 2 1 2 = Inr a
          \<and> shape a = [3, 1, 2]
          \<and> np_get a [2, 0, 1] = 60)"
proof -
  let ?fs = "[''output/snap.u.0000000100'' \<mapsto> [10, 20, 30, 40, 50, 60 :: int]]"
  have h1: "?fs ''output/snap.u.0000000100'' = Some [10, 20, 30, 40, 50, 60]"
    by simp
  have h2: "(0::int) \<le> 2" and h3: "(0::int) \<le> 1" by simp_all
  have h5: "spec_convention (basename ''output/snap.u.0000000100'') = (1, 0, True)"
    by (simp add: spec_convention_def spec_prefix_table_def basename_def)
  have h6: "int (length [10, 20, 30, 40, 50, 60 :: int]) = (if True then 2 else 1) * (1 + 0) * (2 + 1)"
    by simp
  obtain a where a: "interpret_raw_file ?fs ''output/snap.u.0000000100'' 2 1 2 = Inr a"
      "shape a = (if True then [nat (2 + 1), nat (1 + 0), nat 2] else [nat (2 + 1), nat (1 + 0)])"
      "\<forall>idx. list_all2 (<) idx (shape a) \<longrightarrow>
          np_get a idx = [10, 20, 30, 40, 50, 60] ! c_index (rev (shape a)) (rev idx)"
    using interpret_raw_file_spec
        [of ?fs "''output/snap.u.0000000100''" "[10, 20, 30, 40, 50, 60]" 2 1 2 1 0 True,
         OF h1 h2 h3 h2 h5 h6]
    by blast
  have sh: "shape a = [3, 1, 2]" using a(2) by simp
  have "list_all2 (<) [2, 0, 1] (shape a)" by (simp add: sh)
  then have "np_get a [2, 0, 1] = [10, 20, 30, 40, 50, 60] ! c_index (rev (shape a)) (rev [2, 0, 1])"
    using a(3) by blast
  then have el: "np_get a [2, 0, 1] = 60" by (simp add: sh)
  have c7: "\<exists>a. interpret_raw_file ?fs ''output/snap.u.0000000100'' 2 1 2 = Inr a
          \<and> shape a = [3, 1, 2] \<and> np_get a [2, 0, 1] = 60"
    using a(1) sh el by blast
  show ?thesis
    by (intro conjI h1 h2 h3 h5 h6 c7)
qed

section \<open>The configuration store and merge_config\<close>

lemma section_map_range:
  assumes "map_of section_map k = Some sec"
  shows "sec \<in> set sections"
proof -
  have "(k, sec) \<in> set section_map" using assms by (rule map_of_SomeD)
  then have "sec \<in> snd ` set section_map" by force
  also have "snd ` set section_map \<subseteq> set sections"
    by (simp add: section_map_def sections_def)
  finally show ?thesis .
qed

lemma sections_proper:
  assumes "sec \<in> set sections"
  shows "sec \<noteq> []" and "sec \<noteq> ''DEFAULT''" and "str_lower sec \<noteq> ''default''"
  using assms by (auto simp: sections_def str_lower_def lower_char_def)

lemma xform_cong: "cfg_optionxform c2 = cfg_optionxform c1 \<Longrightarrow> xform c2 = xform c1"
  by (rule ext) (simp add: xform_def)

lemma has_section_iff: "has_section config s \<longleftrightarrow> s \<in> set (config_sections config)"
  by (simp add: has_section_def config_sections_def map_of_eq_None_iff)

lemma config_get_cong:
  assumes "map_of (cfg_sections c2) s = map_of (cfg_sections c1) s"
    and "cfg_defaults c2 = cfg_defaults c1" and "xform c2 = xform c1"
  shows "config_get c2 s opt = config_get c1 s opt"
  unfolding config_get_def assms by (rule refl)

lemma config_set_get:
  assumes "has_section c1 sec" and "sec \<noteq> []" and "sec \<noteq> ''DEFAULT''"
  shows "\<exists>c2. config_set c1 sec k v = Inr c2
           \<and> config_get c2 sec k = Inr v
           \<and> cfg_optionxform c2 = cfg_optionxform c1
           \<and> cfg_defaults c2 = cfg_defaults c1
           \<and> (\<forall>s. has_section c2 s = has_section c1 s)
           \<and> (\<forall>s opt w. config_get c1 s opt = Inr w \<longrightarrow> (s \<noteq> sec \<or> xform c1 opt \<noteq> xform c1 k)
                  \<longrightarrow> config_get c2 s opt = Inr w)"
proof -
  obtain opts where opts: "map_of (cfg_sections c1) sec = Some opts"
    using assms(1) by (auto simp: has_section_def)
  define c2 where
    "c2 = c1\<lparr>cfg_sections :=
              AList.update sec (AList.update (xform c1 k) v opts) (cfg_sections c1)\<rparr>"
  have set: "config_set c1 sec k v = Inr c2"
    using assms(2,3) opts by (simp add: config_set_def c2_def)
  have xf: "xform c2 = xform c1"
    by (rule xform_cong) (simp add: c2_def)
  have get: "config_get c2 sec k = Inr v"
    by (simp add: config_get_def Let_def xf) (simp add: c2_def update_conv')
  have hs: "has_section c2 s = has_section c1 s" for s
    using opts by (simp add: has_section_def c2_def update_conv')
  have keep: "config_get c2 s opt = Inr w"
    if g: "config_get c1 s opt = Inr w" and d: "s \<noteq> sec \<or> xform c1 opt \<noteq> xform c1 k"
    for s opt w
  proof -
    consider "s \<noteq> sec" | "s = sec" "xform c1 opt \<noteq> xform c1 k" using d by blast
    then show ?thesis
    proof cases
      case 1
      have "map_of (cfg_sections c2) s = map_of (cfg_sections c1) s"
        using 1 by (simp add: c2_def update_conv')
      moreover have "cfg_defaults c2 = cfg_defaults c1" by (simp add: c2_def)
      ultimately have "config_get c2 s opt = config_get c1 s opt"
        using xf by (rule config_get_cong)
      then show ?thesis using g by simp
    next
      case 2
      have a: "map_of (cfg_sections c2) sec = Some (AList.update (xform c1 k) v opts)"
        by (simp add: c2_def update_conv')
      have b: "map_of (AList.update (xform c1 k) v opts) (xform c1 opt) = map_of opts (xform c1 opt)"
        using 2(2) by (simp add: update_conv')
      have c: "cfg_defaults c2 = cfg_defaults c1" by (simp add: c2_def)
      have "config_get c2 sec opt = config_get c1 sec opt"
        unfolding config_get_def xf a c opts by (simp add: b)
      then show ?thesis using g 2(1) by simp
    qed
  qed
  have "cfg_optionxform c2 = cfg_optionxform c1" "cfg_defaults c2 = cfg_defaults c1"
    by (simp_all add: c2_def)
  then show ?thesis using set get hs keep by blast
qed

lemma ensure_section:
  assumes "str_lower sec \<noteq> ''default''" and "sec \<noteq> ''DEFAULT''"
  shows "\<exists>c1. (if \<not> has_section c sec then add_section c sec else Inr c) = Inr c1
           \<and> has_section c1 sec
           \<and> cfg_optionxform c1 = cfg_optionxform c
           \<and> cfg_defaults c1 = cfg_defaults c
           \<and> (\<forall>s. has_section c s \<longrightarrow> has_section c1 s)
           \<and> (\<forall>s opt w. config_get c s opt = Inr w \<longrightarrow> config_get c1 s opt = Inr w)"
proof -
  consider "has_section c sec" | "\<not> has_section c sec" by blast
  then show ?thesis
  proof cases
    case 1
    then show ?thesis by simp
  next
    case 2
    define c1 where "c1 = c\<lparr>cfg_sections := cfg_sections c @ [(sec, [])]\<rparr>"
    have add: "add_section c sec = Inr c1"
      using 2 assms(1) by (simp add: add_section_def c1_def)
    have xf: "xform c1 = xform c" by (rule xform_cong) (simp add: c1_def)
    have none: "map_of (cfg_sections c) sec = None" using 2 by (simp add: has_section_def)
    have hs: "has_section c1 sec" by (simp add: has_section_def c1_def)
    have mono: "has_section c1 s" if "has_section c s" for s
      using that by (auto simp: has_section_def c1_def)
    have keep: "config_get c1 s opt = Inr w" if g: "config_get c s opt = Inr w" for s opt w
    proof -
      have "s \<noteq> sec"
        using g none assms(2) by (auto simp: config_get_def Let_def split: option.splits if_splits)
      then have "map_of (cfg_sections c1) s = map_of (cfg_sections c) s"
        by (simp add: c1_def map_add_def split: option.splits)
      moreover have "cfg_defaults c1 = cfg_defaults c" by (simp add: c1_def)
      ultimately have "config_get c1 s opt = config_get c s opt"
        using xf by (rule config_get_cong)
      then show ?thesis using g by simp
    qed
    have "cfg_optionxform c1 = cfg_optionxform c" "cfg_defaults c1 = cfg_defaults c"
      by (simp_all add: c1_def)
    then show ?thesis using 2 add hs mono keep by auto
  qed
qed

lemma coerce_bool:
  "(let v1 = (if py_eq_bool ops v True then PStr ''yes'' else v);
        v2 = (if py_eq_bool ops v1 False then PStr ''no'' else v1)
    in f v2) =
   f (if py_eq_bool ops v True then PStr ''yes'' else if py_eq_bool ops v False then PStr ''no'' else v)"
  by (simp add: Let_def)

lemma merge_config_step:
  assumes "map_of section_map k = Some sec"
  shows "\<exists>c2. (\<forall>options. merge_config ops c ((k, v) # options) = merge_config ops c2 options)
           \<and> config_get c2 sec k =
                 Inr (if py_eq_bool ops v True then PStr ''yes''
                      else if py_eq_bool ops v False then PStr ''no'' else v)
           \<and> cfg_optionxform c2 = cfg_optionxform c
           \<and> (\<forall>s. has_section c s \<longrightarrow> has_section c2 s)
           \<and> (\<forall>s opt w. config_get c s opt = Inr w \<longrightarrow> (s \<noteq> sec \<or> xform c opt \<noteq> xform c k)
                  \<longrightarrow> config_get c2 s opt = Inr w)"
proof -
  let ?v2 = "if py_eq_bool ops v True then PStr ''yes'' else if py_eq_bool ops v False then PStr ''no'' else v"
  have sec: "sec \<in> set sections" using assms by (rule section_map_range)
  note proper = sections_proper [OF sec]
  obtain c1 where c1: "(if \<not> has_section c sec then add_section c sec else Inr c) = Inr c1"
      "has_section c1 sec" "cfg_optionxform c1 = cfg_optionxform c"
      "\<forall>s. has_section c s \<longrightarrow> has_section c1 s"
      "\<forall>s opt w. config_get c s opt = Inr w \<longrightarrow> config_get c1 s opt = Inr w"
    using ensure_section [OF proper(3) proper(2), of c] by blast
  obtain c2 where c2: "config_set c1 sec k ?v2 = Inr c2" "config_get c2 sec k = Inr ?v2"
      "cfg_optionxform c2 = cfg_optionxform c1"
      "\<forall>s. has_section c2 s = has_section c1 s"
      "\<forall>s opt w. config_get c1 s opt = Inr w \<longrightarrow> (s \<noteq> sec \<or> xform c1 opt \<noteq> xform c1 k)
                  \<longrightarrow> config_get c2 s opt = Inr w"
    using config_set_get [OF c1(2) proper(1) proper(2), of k ?v2] by blast
  have xf: "xform c1 = xform c" using c1(3) by (rule xform_cong)
  have "merge_config ops c ((k, v) # options) = merge_config ops c2 options" for options
    unfolding merge_config.simps assms option.case c1(1) sum.case coerce_bool c2(1)
    by (rule refl)
  moreover have "cfg_optionxform c2 = cfg_optionxform c" using c1(3) c2(3) by simp
  moreover have "\<forall>s. has_section c s \<longrightarrow> has_section c2 s" using c1(4) c2(4) by simp
  moreover have "\<forall>s opt w. config_get c s opt = Inr w \<longrightarrow> (s \<noteq> sec \<or> xform c opt \<noteq> xform c k)
                  \<longrightarrow> config_get c2 s opt = Inr w"
    using c1(5) c2(5) unfolding xf by blast
  ultimately show ?thesis using c2(2) by blast
qed

lemma merge_config_optionxform:
  "cfg_optionxform (snd (merge_config ops c options)) = cfg_optionxform c"
proof (induction options arbitrary: c)
  case Nil
  then show ?case by simp
next
  case (Cons kv options)
  obtain k v where kv: "kv = (k, v)" by (cases kv)
  show ?case
  proof (cases "map_of section_map k")
    case None
    then show ?thesis by (simp add: kv)
  next
    case (Some sec)
    obtain c2 where c2: "\<forall>opts. merge_config ops c ((k, v) # opts) = merge_config ops c2 opts"
        "cfg_optionxform c2 = cfg_optionxform c"
      using merge_config_step [OF Some, of ops c v] by blast
    show ?thesis using Cons.IH [of c2] c2 by (simp add: kv del: merge_config.simps)
  qed
qed

lemma merge_config_has_section:
  "has_section c s \<Longrightarrow> has_section (snd (merge_config ops c options)) s"
proof (induction options arbitrary: c)
  case Nil
  then show ?case by simp
next
  case (Cons kv options)
  obtain k v where kv: "kv = (k, v)" by (cases kv)
  show ?case
  proof (cases "map_of section_map k")
    case None
    then show ?thesis using Cons.prems by (simp add: kv)
  next
    case (Some sec)
    obtain c2 where c2: "\<forall>opts. merge_config ops c ((k, v) # opts) = merge_config ops c2 opts"
        "\<forall>s. has_section c s \<longrightarrow> has_section c2 s"
      using merge_config_step [OF Some, of ops c v] by blast
    have "has_section c2 s" using c2(2) Cons.prems by blast
    then show ?thesis using Cons.IH [of c2] c2(1) by (simp add: kv del: merge_config.simps)
  qed
qed

lemma merge_config_keeps:
  assumes "config_get c s opt = Inr w"
    and "list_all (\<lambda>kv. xform c (fst kv) \<noteq> xform c opt) options"
  shows "config_get (snd (merge_config ops c options)) s opt = Inr w"
  using assms
proof (induction options arbitrary: c)
  case Nil
  then show ?case by simp
next
  case (Cons kv options)
  obtain k v where kv: "kv = (k, v)" by (cases kv)
  show ?case
  proof (cases "map_of section_map k")
    case None
    then show ?thesis using Cons.prems(1) by (simp add: kv)
  next
    case (Some sec)
    obtain c2 where c2: "\<forall>opts. merge_config ops c ((k, v) # opts) = merge_config ops c2 opts"
        "cfg_optionxform c2 = cfg_optionxform c"
        "\<forall>s opt w. config_get c s opt = Inr w \<longrightarrow> (s \<noteq> sec \<or> xform c opt \<noteq> xform c k)
                  \<longrightarrow> config_get c2 s opt = Inr w"
      using merge_config_step [OF Some, of ops c v] by blast
    have xf: "xform c2 = xform c" using c2(2) by (rule xform_cong)
    have "xform c opt \<noteq> xform c k" using Cons.prems(2) by (auto simp: kv)
    then have g: "config_get c2 s opt = Inr w" using c2(3) Cons.prems(1) by blast
    have "list_all (\<lambda>kv. xform c2 (fst kv) \<noteq> xform c2 opt) options"
      using Cons.prems(2) by (simp add: xf)
    then have "config_get (snd (merge_config ops c2 options)) s opt = Inr w"
      using g by (intro Cons.IH)
    then show ?thesis using c2(1) by (simp add: kv del: merge_config.simps)
  qed
qed

lemma merge_config_recognized:
  assumes "list_all (\<lambda>kv. map_of section_map (fst kv) \<noteq> None) pre"
  shows "merge_config ops c (pre @ post) = merge_config ops (snd (merge_config ops c pre)) post
         \<and> fst (merge_config ops c pre) = Inr ()"
  using assms
proof (induction pre arbitrary: c)
  case Nil
  then show ?case by simp
next
  case (Cons kv pre)
  obtain k v where kv: "kv = (k, v)" by (cases kv)
  obtain sec where sec: "map_of section_map k = Some sec" using Cons.prems by (auto simp: kv)
  obtain c2 where c2: "\<forall>opts. merge_config ops c ((k, v) # opts) = merge_config ops c2 opts"
    using merge_config_step [OF sec, of ops c v] by blast
  have "list_all (\<lambda>kv. map_of section_map (fst kv) \<noteq> None) pre" using Cons.prems by simp
  then have "merge_config ops c2 (pre @ post) = merge_config ops (snd (merge_config ops c2 pre)) post
         \<and> fst (merge_config ops c2 pre) = Inr ()"
    by (rule Cons.IH)
  then show ?case using c2 by (simp add: kv del: merge_config.simps)
qed

lemma merge_config_stores:
  assumes "map_of section_map k = Some sec"
    and "list_all (\<lambda>kv. map_of section_map (fst kv) \<noteq> None) pre"
    and "list_all (\<lambda>kv. xform c (fst kv) \<noteq> xform c k) post"
  shows "config_get (snd (merge_config ops c (pre @ (k, v) # post))) sec k =
           Inr (if py_eq_bool ops v True then PStr ''yes''
                else if py_eq_bool ops v False then PStr ''no'' else v)"
proof -
  define c1 where "c1 = snd (merge_config ops c pre)"
  have a: "merge_config ops c (pre @ (k, v) # post) = merge_config ops c1 ((k, v) # post)"
    using merge_config_recognized [OF assms(2), of ops c "(k, v) # post"] by (simp add: c1_def del: merge_config.simps)
  have xf1: "xform c1 = xform c"
    unfolding c1_def by (rule xform_cong) (rule merge_config_optionxform)
  obtain c2 where c2: "\<forall>opts. merge_config ops c1 ((k, v) # opts) = merge_config ops c2 opts"
      "config_get c2 sec k =
                 Inr (if py_eq_bool ops v True then PStr ''yes''
                      else if py_eq_bool ops v False then PStr ''no'' else v)"
      "cfg_optionxform c2 = cfg_optionxform c1"
    using merge_config_step [OF assms(1), of ops c1 v] by blast
  have "xform c2 = xform c1" using c2(3) by (rule xform_cong)
  then have xf2: "xform c2 = xform c" using xf1 by simp
  have "list_all (\<lambda>kv. xform c2 (fst kv) \<noteq> xform c2 k) post"
    using assms(3) by (simp add: xf2)
  then have "config_get (snd (merge_config ops c2 post)) sec k =
                 Inr (if py_eq_bool ops v True then PStr ''yes''
                      else if py_eq_bool ops v False then PStr ''no'' else v)"
    using c2(2) by (intro merge_config_keeps)
  then show ?thesis using a c2(1) by (simp del: merge_config.simps)
qed

lemma default_configuration_eq:
  "default_configuration =
     Inr \<lparr>cfg_defaults = [],
          cfg_sections = [(''executable'', [(''valgrind'', PStr ''False''), (''perf'', PStr ''False'')]),
                          (''numerics'', []), (''model'', []), (''pressure_solver'', []),
                          (''sponge'', []), (''physics'', []), (''grid'', []),
                          (''initial_conditions'', []), (''external_forcing'', [])],
          cfg_optionxform = Verbatim\<rparr>"
  by (simp add: default_configuration_def sections_def RawConfigParser_def add_section_def
      has_section_def config_set_def xform_def str_lower_def lower_char_def)

lemma default_configuration_sections:
  "default_configuration = Inr c \<Longrightarrow> config_sections c = sections"
  by (auto simp: default_configuration_eq config_sections_def sections_def)







lemma flags_not_file_options:
  "\<not> is_file_name_option ''RedGrav''" "\<not> is_file_name_option ''DumpWind''"
  "\<not> is_file_name_option ''RelativeWind''"
  by (simp_all add: is_file_name_option_def endswith_def)

lemma fortran_option_string_flag:
  assumes "k \<in> set [''RedGrav'', ''DumpWind'', ''RelativeWind'']"
  shows "fortran_option_string sec k c =
           (case getboolean c sec k of
              Inl e \<Rightarrow> Inl e
            | Inr b \<Rightarrow> Inr (Some (PStr (if b then ''.TRUE.'' else ''.FALSE.''))))"
  using assms flags_not_file_options by (auto simp: fortran_option_string_def)




text \<open>
  C8. merge_config compares an override value with \<open>True\<close> and \<open>False\<close> by \<open>==\<close>. So for
  every recognized key, a value equal to \<open>True\<close> (the integer \<open>1\<close>, a float equal to
  \<open>1.0\<close>, or \<open>True\<close> itself) is stored as the text \<open>yes\<close>, and a value equal to \<open>False\<close>
  (the integer \<open>0\<close>, a float equal to \<open>0.0\<close>, or \<open>False\<close> itself) and not to \<open>True\<close> is
  stored as the text \<open>no\<close>; no Python number is equal to both.
\<close>

theorem merge_config_number_as_boolean:
  assumes "map_of section_map k = Some sec"
    and "list_all (\<lambda>kv. map_of section_map (fst kv) \<noteq> None) pre"
    and "list_all (\<lambda>kv. xform config (fst kv) \<noteq> xform config k) post"
  shows "(py_eq_bool ops v True \<longrightarrow>
            config_get (snd (merge_config ops config (pre @ (k, v) # post))) sec k = Inr (PStr ''yes''))
         \<and> (py_eq_bool ops v False \<and> \<not> py_eq_bool ops v True \<longrightarrow>
            config_get (snd (merge_config ops config (pre @ (k, v) # post))) sec k = Inr (PStr ''no''))
         \<and> py_eq_bool ops (PInt 1) True \<and> py_eq_bool ops (PInt 0) False
         \<and> \<not> py_eq_bool ops (PInt 0) True
         \<and> py_eq_bool ops (PFloat x) True = fl_eq ops x (fl_of_int ops 1)
         \<and> py_eq_bool ops (PFloat x) False = fl_eq ops x (fl_of_int ops 0)"
proof -
  have "config_get (snd (merge_config ops config (pre @ (k, v) # post))) sec k =
          Inr (if py_eq_bool ops v True then PStr ''yes''
               else if py_eq_bool ops v False then PStr ''no'' else v)"
    using assms by (rule merge_config_stores)
  then show ?thesis by (simp del: merge_config.simps)
qed

theorem merge_config_number_as_boolean_witness:
  "map_of section_map ''layers'' = Some ''grid''
   \<and> list_all (\<lambda>kv. map_of section_map (fst kv) \<noteq> None) ([] :: (string \<times> real pyval) list)
   \<and> list_all (\<lambda>kv. xform (projr default_configuration :: real config) (fst kv)
                       \<noteq> xform (projr default_configuration :: real config) ''layers'')
         ([] :: (string \<times> real pyval) list)
   \<and> py_eq_bool exact_ops (PInt 1) True
   \<and> config_get (snd (merge_config exact_ops (projr default_configuration) [(''layers'', PInt 1)]))
         ''grid'' ''layers'' = Inr (PStr ''yes'')
   \<and> py_eq_bool exact_ops (PFloat 1) True
   \<and> config_get (snd (merge_config exact_ops (projr default_configuration) [(''layers'', PFloat 1)]))
         ''grid'' ''layers'' = Inr (PStr ''yes'')
   \<and> py_eq_bool exact_ops (PInt 0) False \<and> \<not> py_eq_bool exact_ops (PInt 0) True
   \<and> config_get (snd (merge_config exact_ops (projr default_configuration) [(''layers'', PInt 0)]))
         ''grid'' ''layers'' = Inr (PStr ''no'')"
proof -
  let ?c = "projr default_configuration :: real config"
  have h1: "map_of section_map ''layers'' = Some ''grid''" by (simp add: section_map_def)
  have h2: "list_all (\<lambda>kv. map_of section_map (fst kv) \<noteq> None) ([] :: (string \<times> real pyval) list)"
    by simp
  have h3: "list_all (\<lambda>kv. xform ?c (fst kv) \<noteq> xform ?c ''layers'')
              ([] :: (string \<times> real pyval) list)"
    by simp
  have e1: "py_eq_bool exact_ops (PInt 1) True" by simp
  have e2: "py_eq_bool exact_ops (PFloat 1) True" by (simp add: exact_ops_def)
  have e3: "py_eq_bool exact_ops (PInt 0) False" "\<not> py_eq_bool exact_ops (PInt 0) True"
    by simp_all
  have a: "config_get (snd (merge_config exact_ops ?c [(''layers'', PInt 1)]))
         ''grid'' ''layers'' = Inr (PStr ''yes'')"
    using merge_config_number_as_boolean [OF h1 h2 h3, of exact_ops "PInt 1"] e1
    by (simp del: merge_config.simps)
  have b: "config_get (snd (merge_config exact_ops ?c [(''layers'', PFloat 1)]))
         ''grid'' ''layers'' = Inr (PStr ''yes'')"
    using merge_config_number_as_boolean [OF h1 h2 h3, of exact_ops "PFloat 1"] e2
    by (simp del: merge_config.simps py_eq_bool.simps)
  have c: "config_get (snd (merge_config exact_ops ?c [(''layers'', PInt 0)]))
         ''grid'' ''layers'' = Inr (PStr ''no'')"
    using merge_config_number_as_boolean [OF h1 h2 h3, of exact_ops "PInt 0"] e3
    by (simp del: merge_config.simps)
  show ?thesis by (intro conjI h1 h2 h3 e1 e2 e3 a b c)
qed

section \<open>Parameter-file generation\<close>

lemma config_get_unset:
  assumes "has_section c sec" and "\<not> has_option c sec k" and "sec \<noteq> []" and "sec \<noteq> ''DEFAULT''"
  shows "config_get c sec k = Inl NoOptionError"
proof -
  obtain opts where opts: "map_of (cfg_sections c) sec = Some opts"
    using assms(1) by (auto simp: has_section_def)
  have "map_of opts (xform c k) = None" "map_of (cfg_defaults c) (xform c k) = None"
    using assms(2,3,4) opts by (auto simp: has_option_def)
  then show ?thesis using opts by (simp add: config_get_def)
qed

lemma render_options_fails:
  assumes "(name, section) \<in> set items"
    and "fortran_option_string section name config = Inl e"
  shows "\<exists>e'. render_options items str_of section config = Inl e'"
  using assms(1)
proof (induction items)
  case Nil
  then show ?case by simp
next
  case (Cons item items)
  obtain n s where item: "item = (n, s)" by (cases item)
  show ?case
  proof (cases "item = (name, section)")
    case True
    then show ?thesis using assms(2) by simp
  next
    case False
    then have "(name, section) \<in> set items" using Cons.prems by simp
    then obtain e' where "render_options items str_of section config = Inl e'"
      using Cons.IH by blast
    then show ?thesis
      by (auto simp: item split: sum.splits option.splits)
  qed
qed

lemma render_sections_fails:
  assumes "section \<in> set secs"
    and "render_options items str_of section config = Inl e"
  shows "\<exists>e'. render_sections items str_of secs config = Inl e'"
  using assms(1)
proof (induction secs)
  case Nil
  then show ?case by simp
next
  case (Cons s secs)
  show ?case
  proof (cases "s = section")
    case True
    then show ?thesis using assms(2) by simp
  next
    case False
    then have "section \<in> set secs" using Cons.prems by simp
    then obtain e' where "render_sections items str_of secs config = Inl e'"
      using Cons.IH by blast
    then show ?thesis by (auto split: sum.splits)
  qed
qed

text \<open>
  C9. In a configuration that has the home section of one of the keys RedGrav,
  DumpWind, RelativeWind (default_configuration creates all nine sections and
  merge_config removes none) but does not have that key set, parameter-file generation
  fails, whatever the iteration order of the key table. For every other key that is
  not a file option, fortran_option_string instead returns no value when the key is
  unset, so its line is left out.
\<close>

theorem generate_parameters_file_needs_flags:
  assumes "k \<in> set [''RedGrav'', ''DumpWind'', ''RelativeWind'']"
    and "map_of section_map k = Some sec"
    and "set items = set section_map"
    and "has_section config sec"
    and "\<not> has_option config sec k"
  shows "(\<exists>e. generate_parameters_file items str_of config = Inl e)
         \<and> fortran_option_string sec k config = Inl NoOptionError
         \<and> (\<forall>name section. \<not> is_file_name_option name
                \<and> name \<notin> set [''RedGrav'', ''DumpWind'', ''RelativeWind'']
                \<and> \<not> has_option config section name
              \<longrightarrow> fortran_option_string section name config = Inr None)"
proof -
  have sec: "sec \<in> set sections" using assms(2) by (rule section_map_range)
  note proper = sections_proper [OF sec]
  have "config_get config sec k = Inl NoOptionError"
    using assms(4,5) proper(1,2) by (rule config_get_unset)
  then have "getboolean config sec k = Inl NoOptionError" by (simp add: getboolean_def)
  then have fos: "fortran_option_string sec k config = Inl NoOptionError"
    by (simp add: fortran_option_string_flag [OF assms(1)])
  have "(k, sec) \<in> set section_map" using assms(2) by (rule map_of_SomeD)
  then have "(k, sec) \<in> set items" using assms(3) by simp
  then obtain e1 where "render_options items str_of sec config = Inl e1"
    using render_options_fails [OF _ fos] by blast
  moreover have "sec \<in> set (config_sections config)"
    using assms(4) by (simp add: has_section_iff)
  ultimately obtain e2 where "render_sections items str_of (config_sections config) config = Inl e2"
    using render_sections_fails by blast
  then have "\<exists>e. generate_parameters_file items str_of config = Inl e"
    by (simp add: generate_parameters_file_def)
  moreover have "\<forall>name section. \<not> is_file_name_option name
                \<and> name \<notin> set [''RedGrav'', ''DumpWind'', ''RelativeWind'']
                \<and> \<not> has_option config section name
              \<longrightarrow> fortran_option_string section name config = Inr None"
    by (simp add: fortran_option_string_def)
  ultimately show ?thesis using fos by blast
qed

theorem generate_parameters_file_needs_flags_witness:
  "''RedGrav'' \<in> set [''RedGrav'', ''DumpWind'', ''RelativeWind'']
   \<and> map_of section_map ''RedGrav'' = Some ''model''
   \<and> set section_map = set section_map
   \<and> has_section (projr default_configuration :: real config) ''model''
   \<and> \<not> has_option (projr default_configuration :: real config) ''model'' ''RedGrav''
   \<and> (\<exists>e. generate_parameters_file section_map (\<lambda>v. ''?'')
              (projr default_configuration :: real config) = Inl e)
   \<and> fortran_option_string ''model'' ''RedGrav''
        (projr default_configuration :: real config) = Inl NoOptionError"
proof -
  let ?c = "projr default_configuration :: real config"
  have h1: "''RedGrav'' \<in> set [''RedGrav'', ''DumpWind'', ''RelativeWind'']" by simp
  have h2: "map_of section_map ''RedGrav'' = Some ''model''" by (simp add: section_map_def)
  have h3: "set section_map = set section_map" by simp
  have h4: "has_section ?c ''model''" by (simp add: default_configuration_eq has_section_def)
  have h5: "\<not> has_option ?c ''model'' ''RedGrav''"
    by (simp add: default_configuration_eq has_option_def xform_def)
  note t = generate_parameters_file_needs_flags [OF h1 h2 h3 h4 h5, of "\<lambda>v. ''?''"]
  have a: "\<exists>e. generate_parameters_file section_map (\<lambda>v. ''?'') ?c = Inl e" using t by blast
  have b: "fortran_option_string ''model'' ''RedGrav'' ?c = Inl NoOptionError" using t by blast
  show ?thesis by (intro conjI h1 h2 h3 h4 h5 a b)
qed

lemma default_configuration_has_sections:
  assumes "s \<in> set sections"
  shows "has_section (projr default_configuration) s"
  using assms by (auto simp: default_configuration_eq has_section_def sections_def)

section \<open>The field generators\<close>

text \<open>
  C3 (code defect). tracer_point_variable_2d never returns an array: for every grid
  and every argument list, a plain number or a function alike, it raises NameError
  (or ValueError from \<open>np.ones\<close> when the grid has a negative size).
\<close>

theorem tracer_point_variable_2d_raises:
  "tracer_point_variable_2d ops grid h_funcs =
     Inl (if grid_ny grid < 0 then ValueError
          else if grid_nx grid < 0 then ValueError else NameError)"
  by (simp add: tracer_point_variable_2d_def np_meshgrid_def np_ones_def)

lemma tracer_point_variable_2d_example:
  "\<exists>g. Grid exact_ops 2 2 1 1 1 0 0 = Inr g
        \<and> tracer_point_variable_2d exact_ops g [PFloat 5] = Inl NameError"
proof -
  obtain g where g: "Grid exact_ops 2 2 1 1 1 0 0 = Inr g"
    by (auto simp: Grid_def np_linspace_def Let_def)
  have "grid_nx g = 2" "grid_ny g = 2"
    using g by (auto simp: Grid_def np_linspace_def Let_def)
  then have "tracer_point_variable_2d exact_ops g [PFloat 5] = Inl NameError"
    by (simp add: tracer_point_variable_2d_def np_meshgrid_def np_ones_def)
  then show ?thesis using g by blast
qed

lemma np_ones_ok:
  assumes "list_all (\<lambda>d. 0 \<le> d) dims"
  shows "\<exists>T. np_ones ops dims = Inr T"
proof -
  have "\<not> list_ex (\<lambda>d. d < 0) dims" using assms by (induction dims) auto
  then show ?thesis by (simp add: np_ones_def)
qed

text \<open>
  C4 (code defect). For a grid with at least one layer and a list of exactly
  \<open>grid.layers\<close> plain numbers, u_point_variable_3d and v_point_variable_3d both raise
  TypeError: the test of line 135 (and 155) is made on the list, so every number is
  called as a function.
\<close>

theorem point_variable_3d_numbers_raise:
  assumes "0 < grid_layers grid" and "0 \<le> grid_ny grid" and "0 \<le> grid_nx grid"
    and "int (length nums) = grid_layers grid" and "list_all is_number nums"
  shows "u_point_variable_3d ops grid (PList nums) = Inl TypeError
         \<and> v_point_variable_3d ops grid (PList nums) = Inl TypeError"
proof -
  obtain f rest where nums: "nums = f # rest" using assms(1,4) by (cases nums) auto
  have num: "is_number f" using assms(5) by (simp add: nums)
  have call: "py_call f X Y = Inl TypeError" for X Y :: "'a ndarray"
    using num by (cases f) simp_all
  obtain Tu where Tu: "np_ones ops [grid_layers grid, grid_ny grid, grid_nx grid + 1] = Inr Tu"
    using np_ones_ok [of "[grid_layers grid, grid_ny grid, grid_nx grid + 1]" ops] assms(1,2,3)
    by auto
  obtain Tv where Tv: "np_ones ops [grid_layers grid, grid_ny grid + 1, grid_nx grid] = Inr Tv"
    using np_ones_ok [of "[grid_layers grid, grid_ny grid + 1, grid_nx grid]" ops] assms(1,2,3)
    by auto
  have "u_layers ops grid (PList nums) X Y Tu 0 nums = Inl TypeError" for X Y
    by (simp add: nums call)
  then have u: "u_point_variable_3d ops grid (PList nums) = Inl TypeError"
    using Tu assms(4) by (simp add: u_point_variable_3d_def np_meshgrid_def del: u_layers.simps)
  have "v_layers ops grid (PList nums) X Y Tv 0 nums = Inl TypeError" for X Y
    by (simp add: nums call)
  then have v: "v_point_variable_3d ops grid (PList nums) = Inl TypeError"
    using Tv assms(4) by (simp add: v_point_variable_3d_def np_meshgrid_def del: v_layers.simps)
  show ?thesis using u v by blast
qed

lemma example_grid_exists:
  "\<exists>g. Grid exact_ops 2 2 1 1 1 0 0 = Inr g
        \<and> grid_nx g = 2 \<and> grid_ny g = 2 \<and> grid_layers g = 1"
proof -
  obtain xs where xs: "np_linspace exact_ops 0 (fl_add exact_ops (fl_mul exact_ops (fl_of_int exact_ops 2) 1) 0) (2 + 1) = Inr xs"
    by (simp add: np_linspace_def)
  show ?thesis unfolding Grid_def xs by simp
qed

lemma example_grid:
  "Grid exact_ops 2 2 1 1 1 0 0 = Inr (projr (Grid exact_ops 2 2 1 1 1 0 0))"
  "grid_nx (projr (Grid exact_ops 2 2 1 1 1 0 0)) = 2"
  "grid_ny (projr (Grid exact_ops 2 2 1 1 1 0 0)) = 2"
  "grid_layers (projr (Grid exact_ops 2 2 1 1 1 0 0)) = 1"
proof -
  obtain g where g: "Grid exact_ops 2 2 1 1 1 0 0 = Inr g"
      "grid_nx g = 2" "grid_ny g = 2" "grid_layers g = 1"
    using example_grid_exists by blast
  have p: "projr (Grid exact_ops 2 2 1 1 1 0 0) = g" unfolding g(1) by simp
  show "Grid exact_ops 2 2 1 1 1 0 0 = Inr (projr (Grid exact_ops 2 2 1 1 1 0 0))"
    unfolding p by (rule g(1))
  show "grid_nx (projr (Grid exact_ops 2 2 1 1 1 0 0)) = 2" unfolding p by (rule g(2))
  show "grid_ny (projr (Grid exact_ops 2 2 1 1 1 0 0)) = 2" unfolding p by (rule g(3))
  show "grid_layers (projr (Grid exact_ops 2 2 1 1 1 0 0)) = 1" unfolding p by (rule g(4))
qed

theorem point_variable_3d_numbers_raise_witness:
  "0 < grid_layers (projr (Grid exact_ops 2 2 1 1 1 0 0))
   \<and> 0 \<le> grid_ny (projr (Grid exact_ops 2 2 1 1 1 0 0))
   \<and> 0 \<le> grid_nx (projr (Grid exact_ops 2 2 1 1 1 0 0))
   \<and> int (length [PFloat 5 :: real pyval]) = grid_layers (projr (Grid exact_ops 2 2 1 1 1 0 0))
   \<and> list_all is_number [PFloat 5 :: real pyval]
   \<and> u_point_variable_3d exact_ops (projr (Grid exact_ops 2 2 1 1 1 0 0)) (PList [PFloat 5])
       = Inl TypeError
   \<and> v_point_variable_3d exact_ops (projr (Grid exact_ops 2 2 1 1 1 0 0)) (PList [PFloat 5])
       = Inl TypeError"
proof -
  let ?g = "projr (Grid exact_ops 2 2 1 1 1 0 0)"
  have h1: "0 < grid_layers ?g" and h2: "0 \<le> grid_ny ?g" and h3: "0 \<le> grid_nx ?g"
    by (simp_all add: example_grid(2,3,4))
  have h4: "int (length [PFloat 5 :: real pyval]) = grid_layers ?g" by (simp add: example_grid(4))
  have h5: "list_all is_number [PFloat 5 :: real pyval]" by simp
  note t = point_variable_3d_numbers_raise [OF h1 h2 h3 h4 h5, of exact_ops]
  have a: "u_point_variable_3d exact_ops ?g (PList [PFloat 5]) = Inl TypeError" using t by blast
  have b: "v_point_variable_3d exact_ops ?g (PList [PFloat 5]) = Inl TypeError" using t by blast
  show ?thesis by (intro conjI h1 h2 h3 h4 h5 a b)
qed

section \<open>The data-specification interpreter\<close>

lemma config_get_absent:
  assumes "\<not> has_option c sec k" and "sec \<noteq> []" and "sec \<noteq> ''DEFAULT''"
  shows "\<exists>e. config_get c sec k = Inl e"
  using assms
  by (auto simp: has_option_def config_get_def split: option.splits)

lemma getint_fails:
  assumes "\<not> has_option c ''grid'' k
           \<or> (\<exists>v e. config_get c ''grid'' k = Inr v \<and> py_int ops str_int v = Inl e)"
  shows "\<exists>e. getint ops str_int c ''grid'' k = Inl e"
proof -
  consider "\<not> has_option c ''grid'' k"
    | v e where "config_get c ''grid'' k = Inr v" "py_int ops str_int v = Inl e"
    using assms by blast
  then show ?thesis
  proof cases
    case 1
    then obtain e where "config_get c ''grid'' k = Inl e"
      using config_get_absent [of c "''grid''" k] by auto
    then show ?thesis by (simp add: getint_def)
  next
    case 2
    then show ?thesis by (simp add: getint_def)
  qed
qed

lemma getfloat_fails:
  assumes "\<not> has_option c ''grid'' k
           \<or> (\<exists>v e. config_get c ''grid'' k = Inr v \<and> py_float ops str_float v = Inl e)"
  shows "\<exists>e. getfloat ops str_float c ''grid'' k = Inl e"
proof -
  consider "\<not> has_option c ''grid'' k"
    | v e where "config_get c ''grid'' k = Inr v" "py_float ops str_float v = Inl e"
    using assms by blast
  then show ?thesis
  proof cases
    case 1
    then obtain e where "config_get c ''grid'' k = Inl e"
      using config_get_absent [of c "''grid''" k] by auto
    then show ?thesis by (simp add: getfloat_def)
  next
    case 2
    then show ?thesis by (simp add: getfloat_def)
  qed
qed

lemma grid_of_config_fails_int:
  assumes "k \<in> set [''nx'', ''ny'', ''layers'']"
    and "getint ops str_int c ''grid'' k = Inl e"
  shows "\<exists>e'. grid_of_config ops str_int str_float c = Inl e'"
  using assms by (auto simp: grid_of_config_def split: sum.splits)

lemma grid_of_config_fails_float:
  assumes "k \<in> set [''dx'', ''dy'']"
    and "getfloat ops str_float c ''grid'' k = Inl e"
  shows "\<exists>e'. grid_of_config ops str_int str_float c = Inl e'"
  using assms by (auto simp: grid_of_config_def split: sum.splits)

text \<open>
  C10. interpret_requested_data builds the grid from the configuration before it looks
  at the requested data. So when one of \<open>nx\<close>, \<open>ny\<close>, \<open>layers\<close> is not set in the grid
  section or its value does not convert with \<open>int\<close>, or one of \<open>dx\<close>, \<open>dy\<close> is not set or
  its value does not convert with \<open>float\<close>, every call fails, whatever the requested
  data and the shape tag are, a readable raw file included.
\<close>

theorem interpret_requested_data_needs_grid:
  assumes "(k \<in> set [''nx'', ''ny'', ''layers'']
              \<and> (\<not> has_option config ''grid'' k
                   \<or> (\<exists>v e. config_get config ''grid'' k = Inr v \<and> py_int ops str_int v = Inl e)))
           \<or> (k \<in> set [''dx'', ''dy'']
              \<and> (\<not> has_option config ''grid'' k
                   \<or> (\<exists>v e. config_get config ''grid'' k = Inr v \<and> py_float ops str_float v = Inl e)))"
  shows "\<exists>e. interpret_requested_data ops str_int str_float fs requested_data shp config = Inl e"
proof -
  have "\<exists>e. grid_of_config ops str_int str_float config = Inl e"
    using assms
  proof (elim disjE conjE)
    assume k: "k \<in> set [''nx'', ''ny'', ''layers'']" and "\<not> has_option config ''grid'' k"
    then obtain e where "getint ops str_int config ''grid'' k = Inl e"
      using getint_fails [of config k ops str_int] by blast
    then show ?thesis using k by (rule grid_of_config_fails_int [rotated])
  next
    assume k: "k \<in> set [''nx'', ''ny'', ''layers'']"
      and "\<exists>v e. config_get config ''grid'' k = Inr v \<and> py_int ops str_int v = Inl e"
    then obtain e where "getint ops str_int config ''grid'' k = Inl e"
      using getint_fails [of config k ops str_int] by blast
    then show ?thesis using k by (rule grid_of_config_fails_int [rotated])
  next
    assume k: "k \<in> set [''dx'', ''dy'']" and "\<not> has_option config ''grid'' k"
    then obtain e where "getfloat ops str_float config ''grid'' k = Inl e"
      using getfloat_fails [of config k ops str_float] by blast
    then show ?thesis using k by (rule grid_of_config_fails_float [rotated])
  next
    assume k: "k \<in> set [''dx'', ''dy'']"
      and "\<exists>v e. config_get config ''grid'' k = Inr v \<and> py_float ops str_float v = Inl e"
    then obtain e where "getfloat ops str_float config ''grid'' k = Inl e"
      using getfloat_fails [of config k ops str_float] by blast
    then show ?thesis using k by (rule grid_of_config_fails_float [rotated])
  qed
  then show ?thesis by (auto simp: interpret_requested_data_def)
qed

theorem interpret_requested_data_needs_grid_witness:
  "''nx'' \<in> set [''nx'', ''ny'', ''layers'']
   \<and> \<not> has_option (projr default_configuration :: real config) ''grid'' ''nx''
   \<and> match_specifier ''input/initH.bin'' = None
   \<and> read_reals [''input/initH.bin'' \<mapsto> [400, 400, 400, 400 :: real]] ''input/initH.bin''
       = Inr [400, 400, 400, 400]
   \<and> (\<exists>e. interpret_requested_data exact_ops (\<lambda>s. None) (\<lambda>s. None)
              [''input/initH.bin'' \<mapsto> [400, 400, 400, 400]]
              (PStr ''input/initH.bin'') ''3dT'' (projr default_configuration) = Inl e)"
proof -
  let ?c = "projr default_configuration :: real config"
  have h1: "''nx'' \<in> set [''nx'', ''ny'', ''layers'']" by simp
  have h2: "\<not> has_option ?c ''grid'' ''nx''"
    by (simp add: default_configuration_eq has_option_def xform_def)
  have h3: "match_specifier ''input/initH.bin'' = None" by (simp add: match_specifier_def)
  have h4: "read_reals [''input/initH.bin'' \<mapsto> [400, 400, 400, 400 :: real]] ''input/initH.bin''
       = Inr [400, 400, 400, 400]"
    by (simp add: read_reals_def)
  have hyp: "(''nx'' \<in> set [''nx'', ''ny'', ''layers'']
              \<and> (\<not> has_option ?c ''grid'' ''nx''
                   \<or> (\<exists>v e. config_get ?c ''grid'' ''nx'' = Inr v
                             \<and> py_int exact_ops (\<lambda>s. None) v = Inl e)))
           \<or> (''nx'' \<in> set [''dx'', ''dy'']
              \<and> (\<not> has_option ?c ''grid'' ''nx''
                   \<or> (\<exists>v e. config_get ?c ''grid'' ''nx'' = Inr v
                             \<and> py_float exact_ops (\<lambda>s. None) v = Inl e)))"
    using h1 h2 by blast
  have a: "\<exists>e. interpret_requested_data exact_ops (\<lambda>s. None) (\<lambda>s. None)
              [''input/initH.bin'' \<mapsto> [400, 400, 400, 400]]
              (PStr ''input/initH.bin'') ''3dT'' ?c = Inl e"
    using interpret_requested_data_needs_grid [OF hyp] by blast
  show ?thesis by (intro conjI h1 h2 h3 h4 a)
qed

lemma interpret_requested_data_other_shape:
  assumes "grid_of_config ops str_int str_float config = Inr grid"
    and "\<forall>s. requested_data \<noteq> PStr s"
    and "shp \<notin> set [''2dT'', ''3dT'', ''2dU'', ''3dU'', ''2dV'', ''3dV'']"
  shows "interpret_requested_data ops str_int str_float fs requested_data shp config =
           Inl NotImplementedShape"
  using assms by (cases requested_data) (simp_all add: interpret_requested_data_def)

lemma interpret_requested_data_grid_error:
  assumes "grid_of_config ops str_int str_float config = Inl e"
  shows "interpret_requested_data ops str_int str_float fs requested_data shp config = Inl e"
  using assms by (simp add: interpret_requested_data_def)

lemma time_shape:
  "map_of data_types ''wind_mag_time_series_file'' = Some shp \<longleftrightarrow> shp = ''time''"
  by (auto simp: data_types_def)

text \<open>
  C2 (amended). wind_mag_time_series_file is declared with the shape tag \<open>time\<close>, and
  the dispatch of interpret_requested_data has no case for that tag: for every
  specification that is not text, the call fails. It fails with the not-implemented
  condition whenever the grid can be built from the configuration, and with the
  error of the grid otherwise. Only text, a raw-file path or a generator string, is
  resolved for this option.
\<close>

theorem interpret_requested_data_time_shape:
  assumes "map_of data_types ''wind_mag_time_series_file'' = Some shp"
    and "\<forall>s. requested_data \<noteq> PStr s"
  shows "(\<exists>e. interpret_requested_data ops str_int str_float fs requested_data shp config = Inl e)
         \<and> (\<forall>grid. grid_of_config ops str_int str_float config = Inr grid \<longrightarrow>
                interpret_requested_data ops str_int str_float fs requested_data shp config =
                  Inl NotImplementedShape)"
proof -
  have shp: "shp = ''time''" using assms(1) by (simp add: time_shape)
  then have tag: "shp \<notin> set [''2dT'', ''3dT'', ''2dU'', ''3dU'', ''2dV'', ''3dV'']" by simp
  have ok: "interpret_requested_data ops str_int str_float fs requested_data shp config =
              Inl NotImplementedShape"
    if "grid_of_config ops str_int str_float config = Inr grid" for grid
    using that assms(2) tag by (rule interpret_requested_data_other_shape)
  have "\<exists>e. interpret_requested_data ops str_int str_float fs requested_data shp config = Inl e"
  proof (cases "grid_of_config ops str_int str_float config")
    case (Inl e)
    then show ?thesis using interpret_requested_data_grid_error by blast
  next
    case (Inr grid)
    then show ?thesis using ok by blast
  qed
  then show ?thesis using ok by blast
qed

lemma np_linspace_total: "0 \<le> num \<Longrightarrow> \<exists>ys. np_linspace ops start stop num = Inr ys"
  by (simp add: np_linspace_def Let_def)

lemma Grid_total:
  assumes "0 \<le> nx" and "0 \<le> ny"
  shows "\<exists>g. Grid ops nx ny layers dx dy x0 y0 = Inr g"
proof -
  obtain xs where xs: "np_linspace ops x0 (fl_add ops (fl_mul ops (fl_of_int ops nx) dx) x0) (nx + 1) = Inr xs"
    using np_linspace_total [of "nx + 1"] assms(1) by fastforce
  obtain ys where ys: "np_linspace ops y0 (fl_add ops (fl_mul ops (fl_of_int ops ny) dy) y0) (ny + 1) = Inr ys"
    using np_linspace_total [of "ny + 1"] assms(2) by fastforce
  show ?thesis unfolding Grid_def xs ys by simp
qed

lemma example_config_grid:
  "\<exists>g. grid_of_config exact_ops
          (map_of [(''10'', 10), (''20'', 20), (''1'', 1)]) (map_of [(''1e5'', 100000)])
          \<lparr>cfg_defaults = [],
           cfg_sections = [(''grid'', [(''nx'', PStr ''10''), (''ny'', PStr ''20''),
                                      (''layers'', PStr ''1''), (''dx'', PStr ''1e5''),
                                      (''dy'', PStr ''1e5'')])],
           cfg_optionxform = Verbatim\<rparr> = Inr g"
proof -
  let ?c = "\<lparr>cfg_defaults = [],
           cfg_sections = [(''grid'', [(''nx'', PStr ''10''), (''ny'', PStr ''20''),
                                      (''layers'', PStr ''1''), (''dx'', PStr ''1e5''),
                                      (''dy'', PStr ''1e5'')])],
           cfg_optionxform = Verbatim\<rparr> :: real config"
  let ?si = "map_of [(''10'', 10 :: int), (''20'', 20), (''1'', 1)]"
  let ?sf = "map_of [(''1e5'', 100000 :: real)]"
  have nx: "getint exact_ops ?si ?c ''grid'' ''nx'' = Inr 10"
    and ny: "getint exact_ops ?si ?c ''grid'' ''ny'' = Inr 20"
    and layers: "getint exact_ops ?si ?c ''grid'' ''layers'' = Inr 1"
    by (simp_all add: getint_def config_get_def xform_def)
  have dx: "getfloat exact_ops ?sf ?c ''grid'' ''dx'' = Inr 100000"
    and dy: "getfloat exact_ops ?sf ?c ''grid'' ''dy'' = Inr 100000"
    by (simp_all add: getfloat_def config_get_def xform_def)
  obtain g where "Grid exact_ops 10 20 1 100000 100000 (fl_of_int exact_ops 0) (fl_of_int exact_ops 0) = Inr g"
    using Grid_total [of 10 20 exact_ops 1 100000 100000] by auto
  then show ?thesis unfolding grid_of_config_def nx ny layers dx dy by simp
qed

theorem interpret_requested_data_time_shape_witness:
  "map_of data_types ''wind_mag_time_series_file'' = Some ''time''
   \<and> (\<forall>s. PList [PFn (\<lambda>X Y. Inr X)] \<noteq> (PStr s :: real pyval))
   \<and> interpret_requested_data exact_ops
        (map_of [(''10'', 10), (''20'', 20), (''1'', 1)]) (map_of [(''1e5'', 100000)])
        Map.empty (PList [PFn (\<lambda>X Y. Inr X)]) ''time''
        \<lparr>cfg_defaults = [],
         cfg_sections = [(''grid'', [(''nx'', PStr ''10''), (''ny'', PStr ''20''),
                                    (''layers'', PStr ''1''), (''dx'', PStr ''1e5''),
                                    (''dy'', PStr ''1e5'')])],
         cfg_optionxform = Verbatim\<rparr> = Inl NotImplementedShape"
proof -
  let ?c = "\<lparr>cfg_defaults = [],
           cfg_sections = [(''grid'', [(''nx'', PStr ''10''), (''ny'', PStr ''20''),
                                      (''layers'', PStr ''1''), (''dx'', PStr ''1e5''),
                                      (''dy'', PStr ''1e5'')])],
           cfg_optionxform = Verbatim\<rparr> :: real config"
  have h1: "map_of data_types ''wind_mag_time_series_file'' = Some ''time''"
    by (simp add: data_types_def)
  have h2: "\<forall>s. PList [PFn (\<lambda>X Y. Inr X)] \<noteq> (PStr s :: real pyval)" by simp
  obtain g where g: "grid_of_config exact_ops
          (map_of [(''10'', 10), (''20'', 20), (''1'', 1)]) (map_of [(''1e5'', 100000)]) ?c = Inr g"
    using example_config_grid by blast
  have a: "interpret_requested_data exact_ops
        (map_of [(''10'', 10), (''20'', 20), (''1'', 1)]) (map_of [(''1e5'', 100000)])
        Map.empty (PList [PFn (\<lambda>X Y. Inr X)]) ''time'' ?c = Inl NotImplementedShape"
    using interpret_requested_data_time_shape [OF h1 h2] g by blast
  show ?thesis by (intro conjI h1 h2 a)
qed

text \<open>
  C2 as stated fails: with a configuration whose grid section holds \<open>nx = 10\<close>,
  \<open>ny = 20\<close>, \<open>layers = 1\<close>, \<open>dx = dy = 1e5\<close>, resolving a list holding one function (what
  the Davis reproduction passes for wind_mag_time_series_file) under that option's
  shape tag \<open>time\<close> raises the not-implemented condition.
\<close>

theorem interpret_requested_data_time_counterexample:
  "map_of data_types ''wind_mag_time_series_file'' = Some ''time''
   \<and> interpret_requested_data exact_ops
        (map_of [(''10'', 10), (''20'', 20), (''1'', 1)]) (map_of [(''1e5'', 100000)])
        Map.empty (PList [PFn (\<lambda>X Y. Inr Y)]) ''time''
        \<lparr>cfg_defaults = [],
         cfg_sections = [(''grid'', [(''nx'', PStr ''10''), (''ny'', PStr ''20''),
                                    (''layers'', PStr ''1''), (''dx'', PStr ''1e5''),
                                    (''dy'', PStr ''1e5'')])],
         cfg_optionxform = Verbatim\<rparr> = Inl NotImplementedShape"
proof -
  let ?c = "\<lparr>cfg_defaults = [],
           cfg_sections = [(''grid'', [(''nx'', PStr ''10''), (''ny'', PStr ''20''),
                                      (''layers'', PStr ''1''), (''dx'', PStr ''1e5''),
                                      (''dy'', PStr ''1e5'')])],
           cfg_optionxform = Verbatim\<rparr> :: real config"
  have h1: "map_of data_types ''wind_mag_time_series_file'' = Some ''time''"
    by (simp add: data_types_def)
  obtain g where g: "grid_of_config exact_ops
          (map_of [(''10'', 10), (''20'', 20), (''1'', 1)]) (map_of [(''1e5'', 100000)]) ?c = Inr g"
    using example_config_grid by blast
  have "interpret_requested_data exact_ops
        (map_of [(''10'', 10), (''20'', 20), (''1'', 1)]) (map_of [(''1e5'', 100000)])
        Map.empty (PList [PFn (\<lambda>X Y. Inr Y)]) ''time'' ?c = Inl NotImplementedShape"
    by (rule interpret_requested_data_other_shape [OF g]) simp_all
  then show ?thesis using h1 by blast
qed

end
